theory Spec2Isabelle
  imports Main "HOL-Library.AList"
begin

section \<open>Configuration and time\<close>

text \<open>
  The service of \<^verbatim>\<open>app.py\<close>: a Flask application that asks the yt-dlp library for a
  video, keeps one record per download in the module-level dictionary \<^verbatim>\<open>downloads\<close>,
  and runs a background loop that deletes old files and old records.

  A \<^verbatim>\<open>datetime\<close> is modelled as an integer number of microseconds (the resolution of
  Python's naive datetimes), a \<^verbatim>\<open>timedelta\<close> as the difference of two of them.

  The service is threaded: every request runs in a thread of its own, next to the
  thread of the cleanup loop. The threads share the registry, the download directory
  and the cookie file. A download request is therefore modelled as a sequence of
  atomic steps, one for every access to the shared state, and a run of the service
  as an interleaving of such steps with cleanup passes and other requests.
\<close>

definition DOWNLOAD_DIR :: string where
  "DOWNLOAD_DIR = ''./downloads''"

definition COOKIE_FILE :: string where
  "COOKIE_FILE = ''./cookies.txt''"

definition CLEANUP_INTERVAL :: int where
  "CLEANUP_INTERVAL = 60"

definition FILE_EXPIRY_TIME :: int where
  "FILE_EXPIRY_TIME = 300"

definition timedelta_seconds :: "int \<Rightarrow> int" where
  "timedelta_seconds s = s * 1000000"

text \<open>\<^verbatim>\<open>os.path.join\<close> of two components (posixpath).\<close>

definition path_join :: "string \<Rightarrow> string \<Rightarrow> string" where
  "path_join a b =
     (if take 1 b = ''/'' then b
      else if a = [] \<or> last a = CHR ''/'' then a @ b
      else a @ ''/'' @ b)"

section \<open>Data model\<close>

text \<open>
  One value of the dictionary \<^verbatim>\<open>downloads\<close>: the keys \<^verbatim>\<open>status\<close>, \<^verbatim>\<open>timestamp\<close>,
  \<^verbatim>\<open>url\<close>, \<^verbatim>\<open>filename\<close> and \<^verbatim>\<open>error\<close>. The status is the string the code stores
  (\<^verbatim>\<open>'downloading'\<close>, \<^verbatim>\<open>'completed'\<close>, \<^verbatim>\<open>'error'\<close>); \<^verbatim>\<open>None\<close> is \<open>None\<close>.
\<close>

record job =
  status :: string
  timestamp :: int
  url :: string
  filename :: "string option"
  error :: "string option"

text \<open>
  The dictionary itself keeps insertion order, so it is an association list:
  \<^verbatim>\<open>d[k] = v\<close> is \<open>AList.update\<close>, \<^verbatim>\<open>d.pop(k, None)\<close> is \<open>AList.delete\<close>,
  \<^verbatim>\<open>k in d\<close> and \<^verbatim>\<open>d[k]\<close> read \<open>map_of\<close>.
\<close>

type_synonym registry = "(string \<times> job) list"

text \<open>
  An entry of the download directory as \<^verbatim>\<open>os.listdir\<close>, \<^verbatim>\<open>os.path.isfile\<close> and
  \<^verbatim>\<open>os.path.getctime\<close> see it. \<^verbatim>\<open>os.path.isfile\<close> never raises. \<^verbatim>\<open>os.path.getctime\<close>
  returns the creation time (\<open>Inr\<close>, already the datetime that
  \<^verbatim>\<open>datetime.fromtimestamp\<close> makes of it) or raises \<^verbatim>\<open>OSError\<close> (\<open>Inl\<close> its message), as
  it does for a file that another thread or the library has removed or renamed since
  the directory was listed.
\<close>

record dirent =
  d_name :: string
  d_is_file :: bool
  d_ctime :: "string + int"

text \<open>
  The state the handlers and the cleanup loop share: the registry, the download
  directory (\<open>Inr\<close> its entries in the order \<^verbatim>\<open>os.listdir\<close> returns them, or \<open>Inl\<close>
  the message of the exception \<^verbatim>\<open>os.listdir\<close> raises when the directory cannot be
  listed), the content of the cookie file (\<open>None\<close> when it does not exist) and whether
  the cookie file can be opened for writing.
\<close>

record world =
  downloads :: registry
  download_dir :: "string + dirent list"
  cookie_file :: "string option"
  cookie_writable :: bool

section \<open>Options for the extraction library\<close>

text \<open>
  The dictionary \<^verbatim>\<open>get_yt_dlp_options\<close> returns. A key that the function sets only
  sometimes (\<^verbatim>\<open>cookiefile\<close>) or that a caller adds later (\<^verbatim>\<open>quiet\<close>) is an option.
  The retry count the library passes to a sleep function is a natural number.
\<close>

record ydl_options =
  outtmpl :: string
  format :: string
  noplaylist :: bool
  no_warnings :: bool
  ignoreerrors :: bool
  writesubtitles :: bool
  writeautomaticsub :: bool
  http_headers :: "(string \<times> string) list"
  sleep_interval :: nat
  max_sleep_interval :: nat
  sleep_interval_subtitles :: nat
  extractor_retries :: nat
  file_access_retries :: nat
  fragment_retries :: nat
  retry_sleep_functions :: "(string \<times> (nat \<Rightarrow> nat)) list"
  extractor_args :: "(string \<times> (string \<times> string list) list) list"
  geo_bypass :: bool
  geo_verification_proxy :: "string option"
  prefer_free_formats :: bool
  youtube_include_dash_manifest :: bool
  extract_flat :: bool
  cookiefile :: "string option"
  quiet :: "bool option"

definition headers :: "(string \<times> string) list" where
  \<open>headers =
     [(''User-Agent'', ''Mozilla/5.0 (Windows NT 10.0; Win64; x64) AppleWebKit/537.36 (KHTML, like Gecko) Chrome/127.0.0.0 Safari/537.36''),
      (''Accept'', ''text/html,application/xhtml+xml,application/xml;q=0.9,image/avif,image/webp,image/apng,*/*;q=0.8,application/signed-exchange;v=b3;q=0.7''),
      (''Accept-Language'', ''en-US,en;q=0.9''),
      (''Accept-Encoding'', ''gzip, deflate, br, zstd''),
      (''DNT'', ''1''),
      (''Connection'', ''keep-alive''),
      (''Upgrade-Insecure-Requests'', ''1''),
      (''Sec-Fetch-Dest'', ''document''),
      (''Sec-Fetch-Mode'', ''navigate''),
      (''Sec-Fetch-Site'', ''none''),
      (''Sec-Fetch-User'', ''?1''),
      (''Sec-CH-UA'', ''"Not)A;Brand";v="99", "Google Chrome";v="127", "Chromium";v="127"''),
      (''Sec-CH-UA-Mobile'', ''?0''),
      (''Sec-CH-UA-Platform'', ''"Windows"''),
      (''Cache-Control'', ''max-age=0'')]\<close>

definition get_yt_dlp_options :: "string \<Rightarrow> string \<Rightarrow> world \<Rightarrow> ydl_options" where
  "get_yt_dlp_options quality format_type w =
     \<lparr> outtmpl = path_join DOWNLOAD_DIR ''%(title)s.%(ext)s'',
       format = quality @ ''[ext='' @ format_type @ '']/best[ext='' @ format_type @ '']/best'',
       noplaylist = True,
       no_warnings = False,
       ignoreerrors = False,
       writesubtitles = False,
       writeautomaticsub = False,
       http_headers = headers,
       sleep_interval = 1,
       max_sleep_interval = 5,
       sleep_interval_subtitles = 1,
       extractor_retries = 5,
       file_access_retries = 5,
       fragment_retries = 15,
       retry_sleep_functions =
         [(''http'', \<lambda>n. min (4 ^ n) 60),
          (''fragment'', \<lambda>n. min (4 ^ n) 60),
          (''file_access'', \<lambda>n. min (4 ^ n) 60),
          (''extractor'', \<lambda>n. min (4 ^ n) 60)],
       extractor_args =
         [(''youtube'',
           [(''player_client'', [''android'', ''web'']),
            (''player_skip'', [''webpage'']),
            (''comment_sort'', [''top'']),
            (''max_comments'', [''0''])])],
       geo_bypass = True,
       geo_verification_proxy = None,
       prefer_free_formats = False,
       youtube_include_dash_manifest = True,
       extract_flat = False,
       cookiefile = (if cookie_file w \<noteq> None then Some COOKIE_FILE else None),
       quiet = None \<rparr>"

section \<open>Python values\<close>

text \<open>
  A string is the list of its characters. The truth value Python gives to a value that
  is \<^verbatim>\<open>None\<close> or a string: \<^verbatim>\<open>None\<close> and the empty string are false.
\<close>

definition truthy_str :: "string option \<Rightarrow> bool" where
  "truthy_str v = (case v of None \<Rightarrow> False | Some s \<Rightarrow> s \<noteq> [])"

text \<open>
  What \<^verbatim>\<open>d.get(key)\<close> finds in a dictionary of the library: no such key, the value
  \<^verbatim>\<open>None\<close>, or a value.
\<close>

datatype 'a pyopt = Missing | PyNone | Val 'a

text \<open>
  The values that meet in the membership test of the file scan: a file name is a
  string, an element of \<^verbatim>\<open>downloads.values()\<close> is a dictionary. Python's \<^verbatim>\<open>==\<close> between
  a string and a dictionary is false, which the two constructors give.
\<close>

datatype pyobj = PyStr string | PyDict job

text \<open>
  A parsed JSON document, as \<^verbatim>\<open>request.get_json()\<close> returns it. \<open>JObj\<close> holds the items
  of the dictionary, which has every key once.
\<close>

datatype json =
    JNull
  | JBool bool
  | JNum int
  | JStr string
  | JArr "json list"
  | JObj "(string \<times> json) list"

fun truthy :: "json \<Rightarrow> bool" where
  "truthy JNull = False"
| "truthy (JBool b) = b"
| "truthy (JNum n) = (n \<noteq> 0)"
| "truthy (JStr s) = (s \<noteq> [])"
| "truthy (JArr xs) = (xs \<noteq> [])"
| "truthy (JObj kvs) = (kvs \<noteq> [])"

fun type_name :: "json \<Rightarrow> string" where
  "type_name JNull = ''NoneType''"
| "type_name (JBool b) = ''bool''"
| "type_name (JNum n) = ''int''"
| "type_name (JStr s) = ''str''"
| "type_name (JArr xs) = ''list''"
| "type_name (JObj kvs) = ''dict''"

text \<open>
  \<^verbatim>\<open>data.get(key, default)\<close>: the value of a dictionary, an \<^verbatim>\<open>AttributeError\<close> on
  anything else (\<open>Inl\<close> its message).
\<close>

definition json_get :: "json \<Rightarrow> string \<Rightarrow> json \<Rightarrow> string + json" where
  "json_get data key dflt =
     (case data of
        JObj kvs \<Rightarrow> (case map_of kvs key of None \<Rightarrow> Inr dflt | Some v \<Rightarrow> Inr v)
      | _ \<Rightarrow> Inl ([CHR 0x27] @ type_name data @ [CHR 0x27] @ '' object has no attribute ''
                 @ [CHR 0x27] @ ''get'' @ [CHR 0x27]))"

section \<open>Responses\<close>

text \<open>
  What a view returns: a body and the HTTP status. \<open>Unhandled\<close> is the page Flask
  makes of an exception that leaves the view.
\<close>

record format_descriptor =
  fd_format_id :: "string option"
  fd_ext :: "string option"
  fd_quality :: "string option"
  fd_filesize :: "int option"

record video_info =
  vi_title :: "string option"
  vi_duration :: "int option"
  vi_uploader :: "string option"
  vi_upload_date :: "string option"
  vi_view_count :: "int option"
  vi_like_count :: "int option"
  vi_description :: string
  vi_thumbnail :: "string option"
  vi_formats :: "format_descriptor list"

record download_result =
  dr_download_id :: string
  dr_status :: string
  dr_filename :: string
  dr_download_url :: string
  dr_title :: string

datatype body =
    JError string
  | JMessage string
  | JVideoInfo video_info
  | JDownload download_result
  | JJob job
  | Html
  | Unhandled

type_synonym response = "body \<times> nat"

section \<open>The extraction library\<close>

text \<open>
  What \<^verbatim>\<open>extract_info\<close> returns: the keys the code reads. A title is a string and the
  formats are a list of dictionaries, when they are there and not \<^verbatim>\<open>None\<close>. For the keys
  that only go into the response through \<^verbatim>\<open>get\<close>, and for the description, of which the
  code first takes the truth value, a missing key and the value \<^verbatim>\<open>None\<close> are both \<open>None\<close>.
\<close>

record format_dict =
  f_format_id :: "string option"
  f_ext :: "string option"
  f_format_note :: "string option"
  f_filesize :: "int option"

record info_dict =
  info_title :: "string pyopt"
  info_duration :: "int option"
  info_uploader :: "string option"
  info_upload_date :: "string option"
  info_view_count :: "int option"
  info_like_count :: "int option"
  info_description :: "string option"
  info_thumbnail :: "string option"
  info_formats :: "format_dict list pyopt"

text \<open>
  The library is a parameter of a request. Each of its four calls returns or raises
  (the message of the exception is what the code reads of it):
  \<^item> \<open>construct\<close>: \<^verbatim>\<open>yt_dlp.YoutubeDL(ydl_opts)\<close> and entering the \<^verbatim>\<open>with\<close> block;
  \<^item> \<open>extract_info\<close>: \<^verbatim>\<open>ydl.extract_info(url, download=False)\<close>, which returns a
    dictionary or \<^verbatim>\<open>None\<close>;
  \<^item> \<open>download\<close>: \<^verbatim>\<open>ydl.download([url])\<close>, which changes the download directory, also
    when it raises;
  \<^item> \<open>close\<close>: leaving the \<^verbatim>\<open>with\<close> block (\<^verbatim>\<open>__exit__\<close>), by a \<^verbatim>\<open>return\<close> or by an
    exception. The \<^verbatim>\<open>__exit__\<close> of the library returns nothing, so an exception raised
    in the block goes on, unless \<^verbatim>\<open>__exit__\<close> raises: then its exception is the one
    that leaves the block.
\<close>

record collaborator =
  construct :: "ydl_options \<Rightarrow> string option"
  extract_info :: "ydl_options \<Rightarrow> string \<Rightarrow> string + info_dict option"
  download :: "ydl_options \<Rightarrow> string \<Rightarrow> string + dirent list
                 \<Rightarrow> string option \<times> (string + dirent list)"
  close :: "ydl_options \<Rightarrow> string option"

text \<open>The message with which an exception raised inside the \<^verbatim>\<open>with\<close> block leaves it.\<close>

definition leave_with :: "collaborator \<Rightarrow> ydl_options \<Rightarrow> string \<Rightarrow> string" where
  "leave_with ydl ydl_opts msg = (case close ydl ydl_opts of None \<Rightarrow> msg | Some m \<Rightarrow> m)"

text \<open>The messages of the exceptions Python raises on \<^verbatim>\<open>None\<close>.\<close>

definition none_has_no_get :: string where
  "none_has_no_get =
     [CHR 0x27] @ ''NoneType'' @ [CHR 0x27] @ '' object has no attribute ''
       @ [CHR 0x27] @ ''get'' @ [CHR 0x27]"

definition none_not_iterable :: string where
  "none_not_iterable = [CHR 0x27] @ ''NoneType'' @ [CHR 0x27] @ '' object is not iterable''"

definition none_not_subscriptable :: string where
  "none_not_subscriptable =
     [CHR 0x27] @ ''NoneType'' @ [CHR 0x27] @ '' object is not subscriptable''"

section \<open>Cookies\<close>

text \<open>
  \<^verbatim>\<open>parse_cookie_txt\<close>: opening the file for writing truncates it; writing anything
  but a string raises, and every exception makes the function return \<^verbatim>\<open>False\<close>.
\<close>

definition parse_cookie_txt :: "json \<Rightarrow> world \<Rightarrow> bool \<times> world" where
  "parse_cookie_txt cookie_content w =
     (if \<not> cookie_writable w then (False, w)
      else case cookie_content of
        JStr s \<Rightarrow> (True, w\<lparr>cookie_file := Some s\<rparr>)
      | _ \<Rightarrow> (False, w\<lparr>cookie_file := Some []\<rparr>))"

text \<open>
  \<^verbatim>\<open>upload_cookies\<close>. The request carries no part named \<^verbatim>\<open>file\<close> (\<open>None\<close>), or the
  name of the part and its content: the text \<^verbatim>\<open>decode('utf-8')\<close> makes of it (\<open>Inr\<close>) or
  the message of the exception it raises (\<open>Inl\<close>).
\<close>

definition upload_cookies :: "(string \<times> (string + string)) option \<Rightarrow> world \<Rightarrow> response \<times> world" where
  "upload_cookies files w =
     (case files of
        None \<Rightarrow> ((JError ''No file provided'', 400), w)
      | Some (fname, content) \<Rightarrow>
          if fname = [] then ((JError ''No file selected'', 400), w)
          else (case content of
                  Inl msg \<Rightarrow> ((JError (''Upload failed: '' @ msg), 500), w)
                | Inr cookie_content \<Rightarrow>
                    (case parse_cookie_txt (JStr cookie_content) w of
                       (True, w') \<Rightarrow> ((JMessage ''Cookies uploaded successfully'', 200), w')
                     | (False, w') \<Rightarrow> ((JError ''Failed to parse cookies'', 400), w'))))"

text \<open>
  \<^verbatim>\<open>set_cookies\<close>. \<^verbatim>\<open>request.get_json()\<close> returns the parsed body (\<open>Inr\<close>) or raises
  (\<open>Inl\<close> the message).
\<close>

definition set_cookies :: "string + json \<Rightarrow> world \<Rightarrow> response \<times> world" where
  "set_cookies body w =
     (case body of
        Inl msg \<Rightarrow> ((JError (''Failed to set cookies: '' @ msg), 500), w)
      | Inr data \<Rightarrow>
          (case json_get data ''cookies'' (JStr []) of
             Inl msg \<Rightarrow> ((JError (''Failed to set cookies: '' @ msg), 500), w)
           | Inr cookie_content \<Rightarrow>
               if \<not> truthy cookie_content
               then ((JError ''No cookie content provided'', 400), w)
               else (case parse_cookie_txt cookie_content w of
                       (True, w') \<Rightarrow> ((JMessage ''Cookies set successfully'', 200), w')
                     | (False, w') \<Rightarrow> ((JError ''Failed to parse cookies'', 400), w'))))"

section \<open>Metadata\<close>

text \<open>
  The query string is a map from parameter names to values; \<^verbatim>\<open>args.get(k, d)\<close> is
  \<open>arg_default\<close>.
\<close>

type_synonym args = "string \<Rightarrow> string option"

definition arg_default :: "args \<Rightarrow> string \<Rightarrow> string \<Rightarrow> string" where
  "arg_default a k d = (case a k of None \<Rightarrow> d | Some v \<Rightarrow> v)"

definition format_descriptor_of :: "format_dict \<Rightarrow> format_descriptor" where
  "format_descriptor_of f =
     \<lparr> fd_format_id = f_format_id f,
       fd_ext = f_ext f,
       fd_quality = f_format_note f,
       fd_filesize = f_filesize f \<rparr>"

text \<open>
  The conditional expression of the \<^verbatim>\<open>description\<close> key binds weaker than \<^verbatim>\<open>+\<close>: the
  slice and the dots are both under the condition.
\<close>

definition description_of :: "info_dict \<Rightarrow> string" where
  "description_of info =
     (if truthy_str (info_description info)
      then take 500 (case info_description info of None \<Rightarrow> [] | Some d \<Rightarrow> d) @ ''...''
      else [])"

text \<open>
  The dictionary of the response. \<^verbatim>\<open>info.get('formats', [])[:10]\<close> raises \<^verbatim>\<open>TypeError\<close>
  when the value is \<^verbatim>\<open>None\<close> (\<open>Inl\<close> its message).
\<close>

definition video_info_of :: "info_dict \<Rightarrow> string + video_info" where
  "video_info_of info =
     (case info_formats info of
        PyNone \<Rightarrow> Inl none_not_subscriptable
      | Missing \<Rightarrow>
          Inr \<lparr> vi_title = (case info_title info of Val t \<Rightarrow> Some t | _ \<Rightarrow> None),
                vi_duration = info_duration info,
                vi_uploader = info_uploader info,
                vi_upload_date = info_upload_date info,
                vi_view_count = info_view_count info,
                vi_like_count = info_like_count info,
                vi_description = description_of info,
                vi_thumbnail = info_thumbnail info,
                vi_formats = [] \<rparr>
      | Val fs \<Rightarrow>
          Inr \<lparr> vi_title = (case info_title info of Val t \<Rightarrow> Some t | _ \<Rightarrow> None),
                vi_duration = info_duration info,
                vi_uploader = info_uploader info,
                vi_upload_date = info_upload_date info,
                vi_view_count = info_view_count info,
                vi_like_count = info_like_count info,
                vi_description = description_of info,
                vi_thumbnail = info_thumbnail info,
                vi_formats = map format_descriptor_of (take 10 fs) \<rparr>)"

text \<open>
  \<^verbatim>\<open>get_video_info\<close>. The \<^verbatim>\<open>return\<close> is inside the \<^verbatim>\<open>with\<close> block, which is inside the
  \<^verbatim>\<open>try\<close> block: an exception of \<open>close\<close> replaces the response.
\<close>

definition get_video_info :: "args \<Rightarrow> collaborator \<Rightarrow> world \<Rightarrow> response" where
  "get_video_info a ydl w =
     (case a ''url'' of
        None \<Rightarrow> (JError ''URL parameter is required'', 400)
      | Some u \<Rightarrow>
          if u = [] then (JError ''URL parameter is required'', 400)
          else
            (let ydl_opts = (get_yt_dlp_options ''best'' ''mp4'' w)\<lparr>quiet := Some True\<rparr>
             in case construct ydl ydl_opts of
                  Some msg \<Rightarrow> (JError (''Failed to get video info: '' @ msg), 500)
                | None \<Rightarrow>
                    (case extract_info ydl ydl_opts u of
                       Inl msg \<Rightarrow>
                         (JError (''Failed to get video info: '' @ leave_with ydl ydl_opts msg), 500)
                     | Inr None \<Rightarrow>
                         (JError (''Failed to get video info: ''
                                   @ leave_with ydl ydl_opts none_has_no_get), 500)
                     | Inr (Some info) \<Rightarrow>
                         (case video_info_of info of
                            Inl msg \<Rightarrow>
                              (JError (''Failed to get video info: ''
                                        @ leave_with ydl ydl_opts msg), 500)
                          | Inr vi \<Rightarrow>
                              (case close ydl ydl_opts of
                                 Some msg \<Rightarrow> (JError (''Failed to get video info: '' @ msg), 500)
                               | None \<Rightarrow> (JVideoInfo vi, 200))))))"

section \<open>The cleanup loop\<close>

text \<open>
  \<^verbatim>\<open>os.remove\<close> of a path of the download directory, on the entries of the directory.
\<close>

definition os_remove :: "string \<Rightarrow> dirent list \<Rightarrow> dirent list" where
  "os_remove filepath es = filter (\<lambda>e. path_join DOWNLOAD_DIR (d_name e) \<noteq> filepath) es"

text \<open>
  The first loop of a pass. It reads the creation time of every file of the listing,
  in order, and an exception of \<^verbatim>\<open>os.path.getctime\<close> ends it (\<open>Inl\<close> the message).
\<close>

fun files_to_remove :: "int \<Rightarrow> dirent list \<Rightarrow> string + string list" where
  "files_to_remove current_time [] = Inr []"
| "files_to_remove current_time (e # es) =
     (if d_is_file e
      then (case d_ctime e of
              Inl msg \<Rightarrow> Inl msg
            | Inr file_time \<Rightarrow>
                (case files_to_remove current_time es of
                   Inl msg \<Rightarrow> Inl msg
                 | Inr filepaths \<Rightarrow>
                     if current_time - file_time > timedelta_seconds FILE_EXPIRY_TIME
                     then Inr (path_join DOWNLOAD_DIR (d_name e) # filepaths)
                     else Inr filepaths))
      else files_to_remove current_time es)"

definition expired_downloads :: "int \<Rightarrow> registry \<Rightarrow> string list" where
  "expired_downloads current_time ds =
     [download_id.
        (download_id, info) \<leftarrow> ds,
        current_time - timestamp info > timedelta_seconds FILE_EXPIRY_TIME]"

text \<open>
  One pass of the body of \<^verbatim>\<open>while True\<close> in \<^verbatim>\<open>cleanup_files\<close>, before the sleep.
  \<open>current_time\<close> is the reading of the clock, \<open>remove_fails\<close> tells for which paths
  \<^verbatim>\<open>os.remove\<close> raises (the inner handler prints and goes on), \<open>items_changed\<close> tells
  whether another thread changes the size of \<^verbatim>\<open>downloads\<close> while the pass iterates over
  \<^verbatim>\<open>downloads.items()\<close>, which makes the iteration raise \<^verbatim>\<open>RuntimeError\<close>. The whole body
  is one \<^verbatim>\<open>try\<close> block whose handler prints: an exception of \<^verbatim>\<open>os.listdir\<close>, of
  \<^verbatim>\<open>os.path.getctime\<close> or of the iteration ends the pass where it is raised, and what
  comes after it in the block is skipped.
\<close>

definition cleanup_cycle :: "int \<Rightarrow> (string \<Rightarrow> bool) \<Rightarrow> bool \<Rightarrow> world \<Rightarrow> world" where
  "cleanup_cycle current_time remove_fails items_changed w =
     (case download_dir w of
        Inl msg \<Rightarrow> w
      | Inr es \<Rightarrow>
          (case files_to_remove current_time es of
             Inl msg \<Rightarrow> w
           | Inr filepaths \<Rightarrow>
               (let w1 = w\<lparr> download_dir :=
                             Inr (foldl (\<lambda>es' filepath.
                                           if remove_fails filepath then es'
                                           else os_remove filepath es')
                                    es filepaths) \<rparr>
                in if items_changed then w1
                   else w1\<lparr> downloads :=
                              foldl (\<lambda>ds download_id. AList.delete download_id ds)
                                (downloads w) (expired_downloads current_time (downloads w)) \<rparr>)))"

section \<open>Downloads\<close>

definition new_job :: "int \<Rightarrow> string \<Rightarrow> job" where
  "new_job now u =
     \<lparr> status = ''downloading'', timestamp = now, url = u, filename = None, error = None \<rparr>"

text \<open>
  \<^verbatim>\<open>downloads[download_id][field] = value\<close>: the lookup raises \<^verbatim>\<open>KeyError\<close> when the key
  is not in the dictionary (\<open>None\<close>); \<open>key_error\<close> is the text of that exception.
\<close>

definition set_item :: "string \<Rightarrow> (job \<Rightarrow> job) \<Rightarrow> registry \<Rightarrow> registry option" where
  "set_item download_id f ds =
     (case map_of ds download_id of
        None \<Rightarrow> None
      | Some j \<Rightarrow> Some (AList.update download_id (f j) ds))"

definition key_error :: "string \<Rightarrow> string" where
  "key_error k = [CHR 0x27] @ k @ [CHR 0x27]"

definition changed_size :: string where
  "changed_size = ''dictionary changed size during iteration''"

text \<open>
  The list the scan tests a file name against: the elements of
  \<^verbatim>\<open>downloads.values()\<close> whose \<^verbatim>\<open>filename\<close> is true. Its elements are the records.
\<close>

definition claimed :: "registry \<Rightarrow> pyobj list" where
  "claimed ds = [PyDict f. f \<leftarrow> map snd ds, truthy_str (filename f)]"

text \<open>
  The \<^verbatim>\<open>for\<close> loop over \<^verbatim>\<open>os.listdir(DOWNLOAD_DIR)\<close>, which ends at the first entry
  that passes both tests. For an entry that is a file the loop evaluates the list
  comprehension, reads the creation time and reads the clock; \<open>k\<close> counts these
  entries. \<open>values_changed k\<close> tells whether another thread changes the size of
  \<^verbatim>\<open>downloads\<close> during the \<open>k\<close>-th evaluation of the comprehension, which then raises
  \<^verbatim>\<open>RuntimeError\<close>; \<open>clock k\<close> is the reading of \<^verbatim>\<open>datetime.now()\<close> for the \<open>k\<close>-th file.
  The result is the exception that ends the loop (\<open>Inl\<close> its message) or the value of
  \<^verbatim>\<open>downloaded_file\<close> after it.
\<close>

fun find_downloaded_file ::
  "(nat \<Rightarrow> int) \<Rightarrow> (nat \<Rightarrow> bool) \<Rightarrow> nat \<Rightarrow> registry \<Rightarrow> dirent list \<Rightarrow> string + string option" where
  "find_downloaded_file clock values_changed k ds [] = Inr None"
| "find_downloaded_file clock values_changed k ds (e # es) =
     (if d_is_file e
      then (if values_changed k then Inl changed_size
            else if PyStr (d_name e) \<notin> set (claimed ds)
            then (case d_ctime e of
                    Inl msg \<Rightarrow> Inl msg
                  | Inr file_time \<Rightarrow>
                      if clock k - file_time < timedelta_seconds 30
                      then Inr (Some (d_name e))
                      else find_downloaded_file clock values_changed (Suc k) ds es)
            else find_downloaded_file clock values_changed (Suc k) ds es)
      else find_downloaded_file clock values_changed k ds es)"

text \<open>
  The thread of a download request. Its local state is the url, the options, the
  library object and the place in the code, with the local variables that are live
  there:
  \<^item> \<open>AtExtract\<close>: before the \<^verbatim>\<open>with\<close> statement;
  \<^item> \<open>AtDownload title\<close>: before \<^verbatim>\<open>ydl.download([url])\<close>;
  \<^item> \<open>AtScan title\<close>: before the scan of the directory;
  \<^item> \<open>AtStatus title downloaded_file\<close>: before \<^verbatim>\<open>if downloaded_file:\<close> and the write of
    \<^verbatim>\<open>status\<close> in the branch taken;
  \<^item> \<open>AtDetail title downloaded_file\<close>: before the write of \<^verbatim>\<open>filename\<close>, or of \<^verbatim>\<open>error\<close>,
    in that branch;
  \<^item> \<open>AtExcept msg\<close>: in the \<^verbatim>\<open>except\<close> clause with \<^verbatim>\<open>str(e)\<close> being \<open>msg\<close>, before the write
    of \<^verbatim>\<open>status\<close>;
  \<^item> \<open>AtExcept2 msg\<close>: before the write of \<^verbatim>\<open>error\<close> there;
  \<^item> \<open>Done response\<close>: the request is answered.
\<close>

datatype pc =
    AtExtract
  | AtDownload string
  | AtScan string
  | AtStatus string "string option"
  | AtDetail string "string option"
  | AtExcept string
  | AtExcept2 string
  | Done response

record thread =
  t_url :: string
  t_opts :: ydl_options
  t_ydl :: collaborator
  t_pc :: pc

text \<open>
  The start of \<^verbatim>\<open>download_video\<close>, up to the line before the \<^verbatim>\<open>with\<close> statement: the check
  of the url, the new record and the options. \<open>download_id\<close> is the string
  \<^verbatim>\<open>uuid.uuid4()\<close> gives the request, \<open>now\<close> the reading of the clock for the record. The
  result is the response, when the request ends here, or the thread that goes on.
\<close>

definition download_video_start ::
  "args \<Rightarrow> string \<Rightarrow> int \<Rightarrow> collaborator \<Rightarrow> world \<Rightarrow> (response + thread) \<times> world" where
  "download_video_start a download_id now ydl w =
     (let quality = arg_default a ''quality'' ''best'';
          format_type = arg_default a ''format'' ''mp4''
      in case a ''url'' of
           None \<Rightarrow> (Inl (JError ''URL parameter is required'', 400), w)
         | Some u \<Rightarrow>
             if u = [] then (Inl (JError ''URL parameter is required'', 400), w)
             else
               (let w1 = w\<lparr>downloads := AList.update download_id (new_job now u) (downloads w)\<rparr>
                in (Inr \<lparr> t_url = u,
                          t_opts = (get_yt_dlp_options quality format_type w1)\<lparr>quiet := Some True\<rparr>,
                          t_ydl = ydl,
                          t_pc = AtExtract \<rparr>,
                    w1)))"

text \<open>
  An exception raised inside the \<^verbatim>\<open>with\<close> block leaves it through \<open>close\<close> and goes to the
  \<^verbatim>\<open>except\<close> clause.
\<close>

definition raise_in_with :: "thread \<Rightarrow> string \<Rightarrow> thread" where
  "raise_in_with t msg = t\<lparr>t_pc := AtExcept (leave_with (t_ydl t) (t_opts t) msg)\<rparr>"

text \<open>
  One atomic step of the thread of a download request, from its place in the code to
  the next. Between two steps of a thread the other threads run. The title only goes
  into the response: \<^verbatim>\<open>safe_title\<close>, \<^verbatim>\<open>expected_filename\<close> and \<^verbatim>\<open>expected_path\<close> are
  computed and never read, but computing \<^verbatim>\<open>safe_title\<close> iterates over the title.
\<close>

definition download_video_step ::
  "string \<Rightarrow> (nat \<Rightarrow> int) \<Rightarrow> (nat \<Rightarrow> bool) \<Rightarrow> thread \<Rightarrow> world \<Rightarrow> thread \<times> world" where
  "download_video_step download_id clock values_changed t w =
     (case t_pc t of
        AtExtract \<Rightarrow>
          (case construct (t_ydl t) (t_opts t) of
             Some msg \<Rightarrow> (t\<lparr>t_pc := AtExcept msg\<rparr>, w)
           | None \<Rightarrow>
               (case extract_info (t_ydl t) (t_opts t) (t_url t) of
                  Inl msg \<Rightarrow> (raise_in_with t msg, w)
                | Inr None \<Rightarrow> (raise_in_with t none_has_no_get, w)
                | Inr (Some info) \<Rightarrow>
                    (case info_title info of
                       Missing \<Rightarrow> (t\<lparr>t_pc := AtDownload ''video''\<rparr>, w)
                     | PyNone \<Rightarrow> (raise_in_with t none_not_iterable, w)
                     | Val title \<Rightarrow> (t\<lparr>t_pc := AtDownload title\<rparr>, w))))
      | AtDownload title \<Rightarrow>
          (let r = download (t_ydl t) (t_opts t) (t_url t) (download_dir w);
               w' = w\<lparr>download_dir := snd r\<rparr>
           in case fst r of
                Some msg \<Rightarrow> (raise_in_with t msg, w')
              | None \<Rightarrow> (t\<lparr>t_pc := AtScan title\<rparr>, w'))
      | AtScan title \<Rightarrow>
          (case download_dir w of
             Inl msg \<Rightarrow> (raise_in_with t msg, w)
           | Inr es \<Rightarrow>
               (case find_downloaded_file clock values_changed 0 (downloads w) es of
                  Inl msg \<Rightarrow> (raise_in_with t msg, w)
                | Inr downloaded_file \<Rightarrow> (t\<lparr>t_pc := AtStatus title downloaded_file\<rparr>, w)))
      | AtStatus title downloaded_file \<Rightarrow>
          (if truthy_str downloaded_file
           then (case set_item download_id (\<lambda>j. j\<lparr>status := ''completed''\<rparr>) (downloads w) of
                   None \<Rightarrow> (raise_in_with t (key_error download_id), w)
                 | Some ds \<Rightarrow> (t\<lparr>t_pc := AtDetail title downloaded_file\<rparr>, w\<lparr>downloads := ds\<rparr>))
           else (case set_item download_id (\<lambda>j. j\<lparr>status := ''error''\<rparr>) (downloads w) of
                   None \<Rightarrow> (raise_in_with t (key_error download_id), w)
                 | Some ds \<Rightarrow> (t\<lparr>t_pc := AtDetail title downloaded_file\<rparr>, w\<lparr>downloads := ds\<rparr>)))
      | AtDetail title downloaded_file \<Rightarrow>
          (if truthy_str downloaded_file
           then (case set_item download_id (\<lambda>j. j\<lparr>filename := downloaded_file\<rparr>) (downloads w) of
                   None \<Rightarrow> (raise_in_with t (key_error download_id), w)
                 | Some ds \<Rightarrow>
                     (case close (t_ydl t) (t_opts t) of
                        Some msg \<Rightarrow> (t\<lparr>t_pc := AtExcept msg\<rparr>, w\<lparr>downloads := ds\<rparr>)
                      | None \<Rightarrow>
                          (t\<lparr>t_pc := Done
                                (JDownload
                                   \<lparr> dr_download_id = download_id,
                                     dr_status = ''completed'',
                                     dr_filename =
                                       (case downloaded_file of None \<Rightarrow> [] | Some n \<Rightarrow> n),
                                     dr_download_url = ''/file/'' @ download_id,
                                     dr_title = title \<rparr>, 200)\<rparr>,
                           w\<lparr>downloads := ds\<rparr>)))
           else (case set_item download_id
                        (\<lambda>j. j\<lparr>error := Some ''Downloaded file not found''\<rparr>) (downloads w) of
                   None \<Rightarrow> (raise_in_with t (key_error download_id), w)
                 | Some ds \<Rightarrow>
                     (case close (t_ydl t) (t_opts t) of
                        Some msg \<Rightarrow> (t\<lparr>t_pc := AtExcept msg\<rparr>, w\<lparr>downloads := ds\<rparr>)
                      | None \<Rightarrow>
                          (t\<lparr>t_pc := Done (JError ''Downloaded file not found'', 500)\<rparr>,
                           w\<lparr>downloads := ds\<rparr>))))
      | AtExcept msg \<Rightarrow>
          (case set_item download_id (\<lambda>j. j\<lparr>status := ''error''\<rparr>) (downloads w) of
             None \<Rightarrow> (t\<lparr>t_pc := Done (Unhandled, 500)\<rparr>, w)
           | Some ds \<Rightarrow> (t\<lparr>t_pc := AtExcept2 msg\<rparr>, w\<lparr>downloads := ds\<rparr>))
      | AtExcept2 msg \<Rightarrow>
          (case set_item download_id (\<lambda>j. j\<lparr>error := Some msg\<rparr>) (downloads w) of
             None \<Rightarrow> (t\<lparr>t_pc := Done (Unhandled, 500)\<rparr>, w)
           | Some ds \<Rightarrow>
               (t\<lparr>t_pc := Done (JError (''Download failed: '' @ msg), 500)\<rparr>,
                w\<lparr>downloads := ds\<rparr>))
      | Done resp \<Rightarrow> (t, w))"

section \<open>Serving\<close>

text \<open>The documentation page and the status of a download.\<close>

definition home :: response where
  "home = (Html, 200)"

definition get_status :: "string \<Rightarrow> world \<Rightarrow> response" where
  "get_status download_id w =
     (case map_of (downloads w) download_id of
        None \<Rightarrow> (JError ''Download ID not found'', 404)
      | Some download_info \<Rightarrow> (JJob download_info, 200))"

section \<open>The running service\<close>

text \<open>
  The state of the service: the shared state and the threads of the download
  requests, under their identifiers. A thread that has answered stays in the table,
  with its response.
\<close>

record system =
  shared :: world
  threads :: "(string \<times> thread) list"

text \<open>
  What happens, one atomic action at a time. A request to a route that does not touch
  the registry is one action. A request to \<^verbatim>\<open>/download\<close> starts with \<open>StartDownload\<close>
  and goes on with one \<open>Advance\<close> for every step of its thread, with the actions of the
  other threads in between. A pass of the cleanup loop is one action. Every action
  carries what the environment gives it: the request, the identifier and the library,
  the readings of the clock, the failures of the file system and the changes of the
  registry under an iteration. The route \<^verbatim>\<open>/file\<close> only reads the state and is left out.
\<close>

datatype action =
    Home
  | UploadCookies "(string \<times> (string + string)) option"
  | SetCookies "string + json"
  | GetInfo args collaborator
  | GetStatus string
  | Cleanup int "string \<Rightarrow> bool" bool
  | StartDownload args string int collaborator
  | Advance string "nat \<Rightarrow> int" "nat \<Rightarrow> bool"

fun step :: "action \<Rightarrow> system \<Rightarrow> system" where
  "step Home s = s"
| "step (UploadCookies files) s = s\<lparr>shared := snd (upload_cookies files (shared s))\<rparr>"
| "step (SetCookies body) s = s\<lparr>shared := snd (set_cookies body (shared s))\<rparr>"
| "step (GetInfo a ydl) s = s"
| "step (GetStatus download_id) s = s"
| "step (Cleanup current_time remove_fails items_changed) s =
     s\<lparr>shared := cleanup_cycle current_time remove_fails items_changed (shared s)\<rparr>"
| "step (StartDownload a download_id now ydl) s =
     (case download_video_start a download_id now ydl (shared s) of
        (Inl resp, w) \<Rightarrow> s\<lparr>shared := w\<rparr>
      | (Inr t, w) \<Rightarrow> \<lparr> shared = w, threads = AList.update download_id t (threads s) \<rparr>)"
| "step (Advance download_id clock values_changed) s =
     (case map_of (threads s) download_id of
        None \<Rightarrow> s
      | Some t \<Rightarrow>
          \<lparr> shared = snd (download_video_step download_id clock values_changed t (shared s)),
            threads =
              AList.update download_id
                (fst (download_video_step download_id clock values_changed t (shared s)))
                (threads s) \<rparr>)"

fun run :: "action list \<Rightarrow> system \<Rightarrow> system" where
  "run [] s = s"
| "run (a # as) s = run as (step a s)"

text \<open>
  \<^verbatim>\<open>uuid.uuid4()\<close> is taken to give an identifier that no request has had and no record
  has. A run is valid when each of its actions is, in the state it meets.
\<close>

fun valid :: "action \<Rightarrow> system \<Rightarrow> bool" where
  "valid (StartDownload a download_id now ydl) s =
     (map_of (threads s) download_id = None \<and> map_of (downloads (shared s)) download_id = None)"
| "valid a s = True"

fun valid_run :: "action list \<Rightarrow> system \<Rightarrow> bool" where
  "valid_run [] s = True"
| "valid_run (a # as) s = (valid a s \<and> valid_run as (step a s))"

text \<open>The service as the module leaves it at import: no record and no request.\<close>

definition initial :: "system \<Rightarrow> bool" where
  "initial s = (downloads (shared s) = [] \<and> threads s = [])"

text \<open>The record and the place in the code of a request.\<close>

definition job_of :: "system \<Rightarrow> string \<Rightarrow> job option" where
  "job_of s download_id = map_of (downloads (shared s)) download_id"

definition pc_of :: "system \<Rightarrow> string \<Rightarrow> pc option" where
  "pc_of s download_id = map_option t_pc (map_of (threads s) download_id)"

section \<open>Properties of the records\<close>

text \<open>
  The three forms a record has outside of the two writes that change it: as the
  request makes it, as a download that found its file leaves it, and as a download
  that found none leaves it.
\<close>

definition fresh_job :: "job \<Rightarrow> bool" where
  "fresh_job j = (status j = ''downloading'' \<and> filename j = None \<and> error j = None)"

definition completed_job :: "job \<Rightarrow> bool" where
  "completed_job j = (status j = ''completed'' \<and> truthy_str (filename j) \<and> error j = None)"

definition not_found_job :: "job \<Rightarrow> bool" where
  "not_found_job j =
     (status j = ''error'' \<and> filename j = None \<and> error j = Some ''Downloaded file not found'')"

definition close_raises :: "thread \<Rightarrow> string \<Rightarrow> bool" where
  "close_raises t msg = (close (t_ydl t) (t_opts t) = Some msg)"

text \<open>
  What the record of a request is, as long as it is in the registry, at each place of
  the thread of the request.
\<close>

fun job_at :: "thread \<Rightarrow> pc \<Rightarrow> job \<Rightarrow> bool" where
  "job_at t AtExtract j = fresh_job j"
| "job_at t (AtDownload title) j = fresh_job j"
| "job_at t (AtScan title) j = fresh_job j"
| "job_at t (AtStatus title downloaded_file) j = fresh_job j"
| "job_at t (AtDetail title downloaded_file) j =
     (status j = (if truthy_str downloaded_file then ''completed'' else ''error'')
      \<and> filename j = None \<and> error j = None)"
| "job_at t (AtExcept msg) j =
     (fresh_job j \<or> (close_raises t msg \<and> (completed_job j \<or> not_found_job j)))"
| "job_at t (AtExcept2 msg) j =
     (status j = ''error''
      \<and> ((filename j = None \<and> error j = None)
          \<or> (close_raises t msg
              \<and> ((truthy_str (filename j) \<and> error j = None)
                  \<or> (filename j = None \<and> error j = Some ''Downloaded file not found'')))))"
| "job_at t (Done resp) j =
     (case fst resp of
        JDownload dr \<Rightarrow> completed_job j \<and> filename j = Some (dr_filename dr)
      | JError e \<Rightarrow>
          (e = ''Downloaded file not found'' \<and> not_found_job j)
          \<or> (status j = ''error''
              \<and> (case error j of
                    None \<Rightarrow> False
                  | Some m \<Rightarrow>
                      e = ''Download failed: '' @ m
                      \<and> (filename j = None \<or> (truthy_str (filename j) \<and> close_raises t m))))
      | _ \<Rightarrow> False)"

text \<open>Every record of the registry belongs to a request and is what \<open>job_at\<close> says.\<close>

definition jobs_fit :: "system \<Rightarrow> bool" where
  "jobs_fit s =
     (\<forall>k j. job_of s k = Some j \<longrightarrow>
        (\<exists>t. map_of (threads s) k = Some t \<and> job_at t (t_pc t) j))"

text \<open>
  The changes of status that the code makes: none, from \<^verbatim>\<open>'downloading'\<close> to
  \<^verbatim>\<open>'completed'\<close> or \<^verbatim>\<open>'error'\<close>, and from \<^verbatim>\<open>'completed'\<close> to \<^verbatim>\<open>'error'\<close>.
\<close>

definition status_change :: "string \<Rightarrow> string \<Rightarrow> bool" where
  "status_change before after =
     (after = before
      \<or> (before = ''downloading'' \<and> (after = ''completed'' \<or> after = ''error''))
      \<or> (before = ''completed'' \<and> after = ''error''))"

text \<open>
  The first \<open>n\<close> files of a listing go by in the scan: for each of them the registry
  keeps its size while the comprehension runs, the creation time can be read, and the
  file is not less than 30 seconds old at its reading of the clock.
\<close>

definition passed_over :: "(nat \<Rightarrow> int) \<Rightarrow> (nat \<Rightarrow> bool) \<Rightarrow> dirent list \<Rightarrow> nat \<Rightarrow> bool" where
  "passed_over clock values_changed fs n =
     (\<forall>m<n. \<not> values_changed m
        \<and> (\<exists>created. d_ctime (fs ! m) = Inr created
              \<and> \<not> clock m - created < timedelta_seconds 30))"

section \<open>Concrete runs\<close>

text \<open>
  The service after import, with a cookie file and an empty download directory; files,
  metadata and libraries for the runs below; a clock that reads a given time at the
  first file of a scan and a second more at every further one.
\<close>

definition ex_initial :: system where
  "ex_initial =
     \<lparr> shared = \<lparr> downloads = [], download_dir = Inr [],
                  cookie_file = Some ''# Netscape HTTP Cookie File'', cookie_writable = True \<rparr>,
       threads = [] \<rparr>"

definition ex_file :: "string \<Rightarrow> int \<Rightarrow> dirent" where
  "ex_file n created = \<lparr> d_name = n, d_is_file = True, d_ctime = Inr created \<rparr>"

definition ex_vanished_file :: "string \<Rightarrow> dirent" where
  "ex_vanished_file n =
     \<lparr> d_name = n, d_is_file = True, d_ctime = Inl ''[Errno 2] No such file or directory'' \<rparr>"

definition ex_info :: info_dict where
  "ex_info =
     \<lparr> info_title = Val ''clip'', info_duration = Some 60, info_uploader = None,
       info_upload_date = None, info_view_count = None, info_like_count = None,
       info_description = Some ''about b'', info_thumbnail = None,
       info_formats =
         Val [\<lparr> f_format_id = Some ''18'', f_ext = Some ''mp4'',
                 f_format_note = Some ''360p'', f_filesize = None \<rparr>] \<rparr>"

definition ex_long_description :: string where
  "ex_long_description = replicate 600 (CHR ''x'')"

definition ex_many_formats :: "format_dict list" where
  "ex_many_formats =
     replicate 12 \<lparr> f_format_id = Some ''18'', f_ext = Some ''mp4'',
                       f_format_note = Some ''360p'', f_filesize = Some 1000 \<rparr>"

definition ex_long_info :: info_dict where
  "ex_long_info =
     ex_info\<lparr> info_description := Some ex_long_description,
               info_formats := Val ex_many_formats \<rparr>"

definition ex_info_no_formats :: info_dict where
  "ex_info_no_formats = ex_info\<lparr> info_formats := PyNone \<rparr>"

definition ex_ydl_info :: "info_dict \<Rightarrow> collaborator" where
  "ex_ydl_info info =
     \<lparr> construct = (\<lambda>opts. None),
       extract_info = (\<lambda>opts u. Inr (Some info)),
       download = (\<lambda>opts u d. (None, d)),
       close = (\<lambda>opts. None) \<rparr>"

definition ex_ydl_idle :: collaborator where
  "ex_ydl_idle = ex_ydl_info ex_info"

definition ex_write :: "string \<Rightarrow> int \<Rightarrow> string + dirent list \<Rightarrow> string + dirent list" where
  "ex_write n created d =
     (case d of Inl msg \<Rightarrow> Inl msg | Inr es \<Rightarrow> Inr (es @ [ex_file n created]))"

definition ex_ydl :: "string \<Rightarrow> int \<Rightarrow> collaborator" where
  "ex_ydl n created = ex_ydl_idle\<lparr> download := (\<lambda>opts u d. (None, ex_write n created d)) \<rparr>"

definition ex_ydl_raising :: "string \<Rightarrow> collaborator" where
  "ex_ydl_raising msg = ex_ydl_idle\<lparr> extract_info := (\<lambda>opts u. Inl msg) \<rparr>"

definition ex_ydl_download_raising :: "string \<Rightarrow> collaborator" where
  "ex_ydl_download_raising msg = ex_ydl_idle\<lparr> download := (\<lambda>opts u d. (Some msg, d)) \<rparr>"

definition ex_ydl_close_raising :: "string \<Rightarrow> int \<Rightarrow> string \<Rightarrow> collaborator" where
  "ex_ydl_close_raising n created msg = (ex_ydl n created)\<lparr> close := (\<lambda>opts. Some msg) \<rparr>"

definition ex_ydl_both_raising :: "string \<Rightarrow> string \<Rightarrow> collaborator" where
  "ex_ydl_both_raising msg msg' = (ex_ydl_download_raising msg)\<lparr> close := (\<lambda>opts. Some msg') \<rparr>"

definition ex_ydl_leaving_part :: collaborator where
  "ex_ydl_leaving_part =
     ex_ydl_idle\<lparr> download := (\<lambda>opts u d.
       (None, case d of
                Inl msg \<Rightarrow> Inl msg
              | Inr es \<Rightarrow> Inr (es @ [ex_vanished_file ''b.mp4.part'']))) \<rparr>"

definition ex_clock :: "int \<Rightarrow> nat \<Rightarrow> int" where
  "ex_clock first k = first + 1000000 * int k"

definition ex_unchanged :: "nat \<Rightarrow> bool" where
  "ex_unchanged k = False"

definition ex_never_fails :: "string \<Rightarrow> bool" where
  "ex_never_fails filepath = False"

definition ex_args_a :: args where
  "ex_args_a = [''url'' \<mapsto> ''https://example.com/a'']"

definition ex_args :: args where
  "ex_args = [''url'' \<mapsto> ''https://example.com/b'']"

definition ex_args_no_url :: args where
  "ex_args_no_url = [''quality'' \<mapsto> ''best'', ''format'' \<mapsto> ''mp4'']"

text \<open>
  The request \<^verbatim>\<open>job-a\<close> of second 1 downloads \<^verbatim>\<open>a.mp4\<close> at second 3 and scans at second 4.
  The requests \<^verbatim>\<open>job-b\<close> are of second 8 and scan at second 9, with a library that
  downloads \<^verbatim>\<open>b.mp4\<close> at second 8.5.
\<close>

definition ex_advance :: "string \<Rightarrow> int \<Rightarrow> action" where
  "ex_advance download_id first = Advance download_id (ex_clock first) ex_unchanged"

definition ex_download_a :: "action list" where
  "ex_download_a =
     [StartDownload ex_args_a ''job-a'' 1000000 (ex_ydl ''a.mp4'' 3000000),
      ex_advance ''job-a'' 4000000, ex_advance ''job-a'' 4000000, ex_advance ''job-a'' 4000000,
      ex_advance ''job-a'' 4000000, ex_advance ''job-a'' 4000000]"

definition ex_download_b :: "collaborator \<Rightarrow> action list" where
  "ex_download_b ydl =
     [StartDownload ex_args ''job-b'' 8000000 ydl,
      ex_advance ''job-b'' 9000000, ex_advance ''job-b'' 9000000, ex_advance ''job-b'' 9000000,
      ex_advance ''job-b'' 9000000, ex_advance ''job-b'' 9000000, ex_advance ''job-b'' 9000000,
      ex_advance ''job-b'' 9000000]"

text \<open>
  A request \<^verbatim>\<open>job-b\<close> that finds its file and then cannot leave the \<^verbatim>\<open>with\<close> block.
\<close>

definition ex_download_close :: "action list" where
  "ex_download_close =
     ex_download_b (ex_ydl_close_raising ''b.mp4'' 8500000 ''cannot save cookies'')"


definition ex_ydl_idle_close_raising :: "string \<Rightarrow> collaborator" where
  "ex_ydl_idle_close_raising msg = ex_ydl_idle\<lparr> close := (\<lambda>opts. Some msg) \<rparr>"

text \<open>
  A request \<^verbatim>\<open>job-b\<close> whose download is still running at second 400, when a pass of the
  cleanup loop finds its record older than 300 seconds; the download then raises.
\<close>

definition ex_long_download :: "action list" where
  "ex_long_download =
     [StartDownload ex_args ''job-b'' 8000000 (ex_ydl_download_raising ''timed out''),
      ex_advance ''job-b'' 9000000,
      Cleanup 400000000 ex_never_fails False,
      ex_advance ''job-b'' 401000000]"


text \<open>The shared state after the request \<^verbatim>\<open>job-a\<close>, and a thread of a request in it.\<close>

definition ex_job_a :: job where
  "ex_job_a =
     \<lparr> status = ''completed'', timestamp = 1000000, url = ''https://example.com/a'',
       filename = Some ''a.mp4'', error = None \<rparr>"

definition ex_world :: world where
  "ex_world =
     \<lparr> downloads = [(''job-a'', ex_job_a)],
       download_dir = Inr [ex_file ''a.mp4'' 3000000],
       cookie_file = Some ''# Netscape HTTP Cookie File'',
       cookie_writable = True \<rparr>"

text \<open>
  The same state when the library has left a part file that is gone by the time its
  creation time is read, and when the request \<^verbatim>\<open>job-b\<close> of second 100 has made its record.
\<close>

definition ex_world_part :: world where
  "ex_world_part =
     ex_world\<lparr>download_dir := Inr [ex_file ''a.mp4'' 3000000, ex_vanished_file ''b.mp4.part'']\<rparr>"


definition ex_opts :: ydl_options where
  "ex_opts = (get_yt_dlp_options ''best'' ''mp4'' ex_world)\<lparr>quiet := Some True\<rparr>"

definition ex_thread :: "collaborator \<Rightarrow> pc \<Rightarrow> thread" where
  "ex_thread ydl p =
     \<lparr> t_url = ''https://example.com/b'', t_opts = ex_opts, t_ydl = ydl, t_pc = p \<rparr>"

section \<open>One step of a request\<close>

lemma not_in_claimed: "PyStr n \<notin> set (claimed ds)"
  by (auto simp: claimed_def)

lemma set_item_present:
  "map_of ds i = Some j \<Longrightarrow> set_item i f ds = Some (AList.update i (f j) ds)"
  by (simp add: set_item_def)

lemma set_item_absent: "map_of ds i = None \<Longrightarrow> set_item i f ds = None"
  by (simp add: set_item_def)

lemma map_of_update_same: "map_of (AList.update i j ds) i = Some j"
  by (simp add: update_conv')

lemma map_of_update_other: "k \<noteq> i \<Longrightarrow> map_of (AList.update i j ds) k = map_of ds k"
  by (simp add: update_conv')

lemma set_item_other:
  "set_item i f ds = Some ds' \<Longrightarrow> k \<noteq> i \<Longrightarrow> map_of ds' k = map_of ds k"
  by (auto simp: set_item_def map_of_update_other split: option.splits)

lemma step_at_extract:
  assumes "t_pc t = AtExtract"
  shows "download_video_step i c v t w =
     (case construct (t_ydl t) (t_opts t) of
        Some msg \<Rightarrow> (t\<lparr>t_pc := AtExcept msg\<rparr>, w)
      | None \<Rightarrow>
          (case extract_info (t_ydl t) (t_opts t) (t_url t) of
             Inl msg \<Rightarrow> (raise_in_with t msg, w)
           | Inr None \<Rightarrow> (raise_in_with t none_has_no_get, w)
           | Inr (Some info) \<Rightarrow>
               (case info_title info of
                  Missing \<Rightarrow> (t\<lparr>t_pc := AtDownload ''video''\<rparr>, w)
                | PyNone \<Rightarrow> (raise_in_with t none_not_iterable, w)
                | Val title \<Rightarrow> (t\<lparr>t_pc := AtDownload title\<rparr>, w))))"
  using assms by (simp add: download_video_step_def)

lemma step_at_download:
  assumes "t_pc t = AtDownload title"
  shows "download_video_step i c v t w =
     (case fst (download (t_ydl t) (t_opts t) (t_url t) (download_dir w)) of
        Some msg \<Rightarrow>
          (raise_in_with t msg,
           w\<lparr>download_dir := snd (download (t_ydl t) (t_opts t) (t_url t) (download_dir w))\<rparr>)
      | None \<Rightarrow>
          (t\<lparr>t_pc := AtScan title\<rparr>,
           w\<lparr>download_dir := snd (download (t_ydl t) (t_opts t) (t_url t) (download_dir w))\<rparr>))"
  using assms by (simp add: download_video_step_def Let_def)

lemma step_at_scan:
  assumes "t_pc t = AtScan title"
  shows "download_video_step i c v t w =
     (case download_dir w of
        Inl msg \<Rightarrow> (raise_in_with t msg, w)
      | Inr es \<Rightarrow>
          (case find_downloaded_file c v 0 (downloads w) es of
             Inl msg \<Rightarrow> (raise_in_with t msg, w)
           | Inr downloaded_file \<Rightarrow> (t\<lparr>t_pc := AtStatus title downloaded_file\<rparr>, w)))"
  using assms by (simp add: download_video_step_def)

lemma step_at_status:
  assumes "t_pc t = AtStatus title f"
  shows "download_video_step i c v t w =
     (case map_of (downloads w) i of
        None \<Rightarrow> (raise_in_with t (key_error i), w)
      | Some j \<Rightarrow>
          (t\<lparr>t_pc := AtDetail title f\<rparr>,
           w\<lparr>downloads := AList.update i
                (j\<lparr>status := (if truthy_str f then ''completed'' else ''error'')\<rparr>) (downloads w)\<rparr>))"
  using assms by (simp add: download_video_step_def set_item_def split: option.splits)

lemma step_at_detail:
  assumes "t_pc t = AtDetail title f"
  shows "download_video_step i c v t w =
     (case map_of (downloads w) i of
        None \<Rightarrow> (raise_in_with t (key_error i), w)
      | Some j \<Rightarrow>
          (t\<lparr>t_pc :=
               (case close (t_ydl t) (t_opts t) of
                  Some msg \<Rightarrow> AtExcept msg
                | None \<Rightarrow>
                    if truthy_str f
                    then Done (JDownload
                                 \<lparr> dr_download_id = i, dr_status = ''completed'',
                                   dr_filename = (case f of None \<Rightarrow> [] | Some n \<Rightarrow> n),
                                   dr_download_url = ''/file/'' @ i, dr_title = title \<rparr>, 200)
                    else Done (JError ''Downloaded file not found'', 500))\<rparr>,
           w\<lparr>downloads := AList.update i
                (if truthy_str f then j\<lparr>filename := f\<rparr>
                 else j\<lparr>error := Some ''Downloaded file not found''\<rparr>) (downloads w)\<rparr>))"
  using assms by (simp add: download_video_step_def set_item_def split: option.splits)

lemma step_at_except:
  assumes "t_pc t = AtExcept msg"
  shows "download_video_step i c v t w =
     (case map_of (downloads w) i of
        None \<Rightarrow> (t\<lparr>t_pc := Done (Unhandled, 500)\<rparr>, w)
      | Some j \<Rightarrow>
          (t\<lparr>t_pc := AtExcept2 msg\<rparr>,
           w\<lparr>downloads := AList.update i (j\<lparr>status := ''error''\<rparr>) (downloads w)\<rparr>))"
  using assms by (simp add: download_video_step_def set_item_def split: option.splits)

lemma step_at_except2:
  assumes "t_pc t = AtExcept2 msg"
  shows "download_video_step i c v t w =
     (case map_of (downloads w) i of
        None \<Rightarrow> (t\<lparr>t_pc := Done (Unhandled, 500)\<rparr>, w)
      | Some j \<Rightarrow>
          (t\<lparr>t_pc := Done (JError (''Download failed: '' @ msg), 500)\<rparr>,
           w\<lparr>downloads := AList.update i (j\<lparr>error := Some msg\<rparr>) (downloads w)\<rparr>))"
  using assms by (simp add: download_video_step_def set_item_def split: option.splits)

lemma step_at_done:
  assumes "t_pc t = Done resp"
  shows "download_video_step i c v t w = (t, w)"
  using assms by (simp add: download_video_step_def)

lemmas step_at =
  step_at_extract step_at_download step_at_scan step_at_status step_at_detail
  step_at_except step_at_except2 step_at_done

lemma step_thread_fields:
  "t_ydl (fst (download_video_step i c v t w)) = t_ydl t"
  "t_opts (fst (download_video_step i c v t w)) = t_opts t"
  "t_url (fst (download_video_step i c v t w)) = t_url t"
  by (cases "t_pc t";
      simp add: step_at raise_in_with_def split: option.splits sum.splits pyopt.splits)+

lemma step_other_record:
  assumes "k \<noteq> i"
  shows "map_of (downloads (snd (download_video_step i c v t w))) k = map_of (downloads w) k"
  using assms
  by (cases "t_pc t";
      simp add: step_at map_of_update_other split: option.splits sum.splits pyopt.splits)

lemma step_absent_record:
  assumes "map_of (downloads w) i = None"
  shows "map_of (downloads (snd (download_video_step i c v t w))) i = None"
  using assms
  by (cases "t_pc t";
      simp add: step_at split: option.splits sum.splits pyopt.splits)

lemma job_at_fields:
  assumes "t_ydl t' = t_ydl t" and "t_opts t' = t_opts t"
  shows "job_at t' p j = job_at t p j"
  using assms by (cases p) (simp_all add: close_raises_def split: body.splits option.splits)

lemma step_own_record:
  assumes rec: "map_of (downloads w) i = Some j"
    and fit: "job_at t (t_pc t) j"
    and after: "map_of (downloads (snd (download_video_step i c v t w))) i = Some j'"
  shows "job_at t (t_pc (fst (download_video_step i c v t w))) j'"
proof (cases "t_pc t")
  case AtExtract
  with rec fit after show ?thesis
    by (auto simp: step_at raise_in_with_def split: option.splits sum.splits pyopt.splits)
next
  case (AtDownload title)
  with rec fit after show ?thesis
    by (auto simp: step_at raise_in_with_def split: option.splits)
next
  case (AtScan title)
  with rec fit after show ?thesis
    by (auto simp: step_at raise_in_with_def split: sum.splits)
next
  case (AtStatus title f)
  with rec fit after show ?thesis
    by (auto simp: step_at map_of_update_same fresh_job_def)
next
  case (AtDetail title f)
  with rec fit after show ?thesis
    by (auto simp: step_at map_of_update_same completed_job_def not_found_job_def close_raises_def
        truthy_str_def split: option.splits if_splits)
next
  case (AtExcept msg)
  with rec fit after show ?thesis
    by (auto simp: step_at map_of_update_same fresh_job_def completed_job_def not_found_job_def)
next
  case (AtExcept2 msg)
  with rec fit after show ?thesis
    by (auto simp: step_at map_of_update_same)
next
  case (Done resp)
  with rec fit after show ?thesis
    by (auto simp: step_at)
qed

lemma step_own_status:
  assumes rec: "map_of (downloads w) i = Some j"
    and fit: "job_at t (t_pc t) j"
    and after: "map_of (downloads (snd (download_video_step i c v t w))) i = Some j'"
  shows "status j' = status j
         \<or> (status j = ''downloading'' \<and> (status j' = ''completed'' \<or> status j' = ''error''))
         \<or> (status j = ''completed'' \<and> status j' = ''error''
             \<and> truthy_str (filename j) \<and> (\<exists>msg. t_pc t = AtExcept msg \<and> close_raises t msg))"
proof (cases "t_pc t")
  case AtExtract
  with rec after show ?thesis
    by (auto simp: step_at raise_in_with_def split: option.splits sum.splits pyopt.splits)
next
  case (AtDownload title)
  with rec after show ?thesis
    by (auto simp: step_at raise_in_with_def split: option.splits)
next
  case (AtScan title)
  with rec after show ?thesis
    by (auto simp: step_at raise_in_with_def split: sum.splits)
next
  case (AtStatus title f)
  with rec fit after show ?thesis
    by (auto simp: step_at map_of_update_same fresh_job_def split: if_splits)
next
  case (AtDetail title f)
  with rec after show ?thesis
    by (auto simp: step_at map_of_update_same split: if_splits)
next
  case (AtExcept msg)
  with rec fit after show ?thesis
    by (auto simp: step_at map_of_update_same fresh_job_def completed_job_def not_found_job_def)
next
  case (AtExcept2 msg)
  with rec after show ?thesis
    by (auto simp: step_at map_of_update_same)
next
  case (Done resp)
  with rec after show ?thesis
    by (simp add: step_at)
qed

section \<open>The other actions\<close>

lemma downloads_upload_cookies: "downloads (snd (upload_cookies files w)) = downloads w"
  by (auto simp: upload_cookies_def parse_cookie_txt_def
      split: option.splits prod.splits sum.splits json.splits bool.splits if_splits)

lemma downloads_set_cookies: "downloads (snd (set_cookies body w)) = downloads w"
  by (auto simp: set_cookies_def parse_cookie_txt_def
      split: option.splits prod.splits sum.splits json.splits bool.splits if_splits)

lemma map_of_foldl_delete:
  "map_of (foldl (\<lambda>ds k. AList.delete k ds) ds ks) k =
     (if k \<in> set ks then None else map_of ds k)"
  by (induction ks arbitrary: ds) (auto simp: delete_conv')

lemma expired_downloads_member:
  "(k \<in> set (expired_downloads t ds)) =
     (\<exists>j. (k, j) \<in> set ds \<and> t - timestamp j > timedelta_seconds FILE_EXPIRY_TIME)"
  by (auto simp: expired_downloads_def)

lemma files_to_remove_raises:
  "(\<exists>msg. files_to_remove t es = Inl msg) =
     (\<exists>e \<in> set es. d_is_file e \<and> (\<exists>msg. d_ctime e = Inl msg))"
  by (induction es) (auto split: sum.splits)

lemma map_of_cleanup_cycle:
  "map_of (downloads (cleanup_cycle t rf ic w)) k =
     (case download_dir w of
        Inl msg \<Rightarrow> map_of (downloads w) k
      | Inr es \<Rightarrow>
          (case files_to_remove t es of
             Inl msg \<Rightarrow> map_of (downloads w) k
           | Inr ps \<Rightarrow>
               if \<not> ic \<and> k \<in> set (expired_downloads t (downloads w)) then None
               else map_of (downloads w) k))"
  by (simp add: cleanup_cycle_def map_of_foldl_delete Let_def split: sum.splits)

lemma cleanup_cycle_record:
  "map_of (downloads (cleanup_cycle t rf ic w)) k = None
   \<or> map_of (downloads (cleanup_cycle t rf ic w)) k = map_of (downloads w) k"
  by (simp add: map_of_cleanup_cycle split: sum.splits)

lemma start_no_url:
  assumes "\<not> truthy_str (a ''url'')"
  shows "download_video_start a i now ydl w = (Inl (JError ''URL parameter is required'', 400), w)"
  using assms by (simp add: download_video_start_def truthy_str_def Let_def split: option.splits)

lemma start_with_url:
  assumes "a ''url'' = Some u" and "u \<noteq> []"
  shows "download_video_start a i now ydl w =
     (Inr \<lparr> t_url = u,
            t_opts = (get_yt_dlp_options (arg_default a ''quality'' ''best'')
                        (arg_default a ''format'' ''mp4'')
                        (w\<lparr>downloads := AList.update i (new_job now u) (downloads w)\<rparr>))
                     \<lparr>quiet := Some True\<rparr>,
            t_ydl = ydl, t_pc = AtExtract \<rparr>,
      w\<lparr>downloads := AList.update i (new_job now u) (downloads w)\<rparr>)"
  using assms by (simp add: download_video_start_def Let_def)

lemma fresh_new_job: "fresh_job (new_job now u)"
  by (simp add: fresh_job_def new_job_def)

section \<open>What one action does to one record\<close>

lemma step_record:
  assumes inv: "jobs_fit s" and ok: "valid a s" and rec: "job_of s k = Some j"
  shows "job_of (step a s) k = None
         \<or> (\<exists>j'. job_of (step a s) k = Some j'
              \<and> (status j' = status j
                  \<or> (status j = ''downloading'' \<and> (status j' = ''completed'' \<or> status j' = ''error''))
                  \<or> (status j = ''completed'' \<and> status j' = ''error'' \<and> truthy_str (filename j)
                      \<and> (\<exists>c v t msg. a = Advance k c v \<and> map_of (threads s) k = Some t
                            \<and> t_pc t = AtExcept msg \<and> close_raises t msg))))"
proof (cases a)
  case Home
  with rec show ?thesis by (simp add: job_of_def)
next
  case (UploadCookies files)
  with rec show ?thesis by (simp add: job_of_def downloads_upload_cookies)
next
  case (SetCookies body)
  with rec show ?thesis by (simp add: job_of_def downloads_set_cookies)
next
  case (GetInfo a' ydl)
  with rec show ?thesis by (simp add: job_of_def)
next
  case (GetStatus i)
  with rec show ?thesis by (simp add: job_of_def)
next
  case (Cleanup t rf ic)
  with rec cleanup_cycle_record [of t rf ic "shared s" k] show ?thesis
    by (auto simp: job_of_def)
next
  case (StartDownload a' i now ydl)
  with ok rec have ki: "k \<noteq> i" by (auto simp: job_of_def)
  show ?thesis
  proof (cases "truthy_str (a' ''url'')")
    case False
    with StartDownload rec show ?thesis
      by (simp add: job_of_def start_no_url)
  next
    case True
    then obtain u where u: "a' ''url'' = Some u" "u \<noteq> []"
      by (auto simp: truthy_str_def split: option.splits)
    with StartDownload rec ki show ?thesis
      by (simp add: job_of_def start_with_url map_of_update_other)
  qed
next
  case (Advance i c v)
  show ?thesis
  proof (cases "map_of (threads s) i")
    case None
    with Advance rec show ?thesis by (simp add: job_of_def)
  next
    case (Some t)
    show ?thesis
    proof (cases "k = i")
      case False
      with Advance Some rec show ?thesis
        by (simp add: job_of_def step_other_record)
    next
      case True
      from inv rec obtain t' where "map_of (threads s) k = Some t'" "job_at t' (t_pc t') j"
        unfolding jobs_fit_def by blast
      with True Some have fit: "job_at t (t_pc t) j"
        by simp
      from rec True have rec': "map_of (downloads (shared s)) i = Some j"
        by (simp add: job_of_def)
      show ?thesis
      proof (cases "map_of (downloads (snd (download_video_step i c v t (shared s)))) i")
        case None
        with Advance Some True show ?thesis by (simp add: job_of_def)
      next
        case after: (Some j')
        from step_own_status [OF rec' fit after] Advance Some True after show ?thesis
          by (auto simp: job_of_def)
      qed
    qed
  qed
qed

lemma step_new_record:
  assumes ok: "valid a s" and absent: "job_of s k = None" and new: "job_of (step a s) k = Some j"
  shows "\<exists>a' now ydl u. a = StartDownload a' k now ydl \<and> a' ''url'' = Some u \<and> u \<noteq> []
           \<and> j = new_job now u \<and> pc_of (step a s) k = Some AtExtract"
proof (cases a)
  case Home
  with absent new show ?thesis by (simp add: job_of_def)
next
  case (UploadCookies files)
  with absent new show ?thesis by (simp add: job_of_def downloads_upload_cookies)
next
  case (SetCookies body)
  with absent new show ?thesis by (simp add: job_of_def downloads_set_cookies)
next
  case (GetInfo a' ydl)
  with absent new show ?thesis by (simp add: job_of_def)
next
  case (GetStatus i)
  with absent new show ?thesis by (simp add: job_of_def)
next
  case (Cleanup t rf ic)
  with absent new cleanup_cycle_record [of t rf ic "shared s" k] show ?thesis
    by (auto simp: job_of_def)
next
  case (StartDownload a' i now ydl)
  show ?thesis
  proof (cases "truthy_str (a' ''url'')")
    case False
    with StartDownload absent new show ?thesis
      by (simp add: job_of_def start_no_url)
  next
    case True
    then obtain u where u: "a' ''url'' = Some u" "u \<noteq> []"
      by (auto simp: truthy_str_def split: option.splits)
    show ?thesis
    proof (cases "k = i")
      case False
      with StartDownload absent new u show ?thesis
        by (simp add: job_of_def start_with_url map_of_update_other)
    next
      case True
      with StartDownload absent new u show ?thesis
        by (simp add: job_of_def pc_of_def start_with_url map_of_update_same)
    qed
  qed
next
  case (Advance i c v)
  show ?thesis
  proof (cases "map_of (threads s) i")
    case None
    with Advance absent new show ?thesis by (simp add: job_of_def)
  next
    case (Some t)
    show ?thesis
    proof (cases "k = i")
      case False
      with Advance Some absent new show ?thesis
        by (simp add: job_of_def step_other_record)
    next
      case True
      with Advance Some absent new show ?thesis
        by (simp add: job_of_def step_absent_record)
    qed
  qed
qed

section \<open>The records of the reachable states\<close>

lemma jobs_fit_step:
  assumes inv: "jobs_fit s" and ok: "valid a s"
  shows "jobs_fit (step a s)"
  unfolding jobs_fit_def
proof (intro allI impI)
  fix k j'
  assume after: "job_of (step a s) k = Some j'"
  show "\<exists>t. map_of (threads (step a s)) k = Some t \<and> job_at t (t_pc t) j'"
  proof (cases "job_of s k")
    case None
    from step_new_record [OF ok None after]
    obtain a' now ydl u where a: "a = StartDownload a' k now ydl" "a' ''url'' = Some u" "u \<noteq> []"
      and j': "j' = new_job now u"
      by blast
    then show ?thesis
      by (simp add: start_with_url map_of_update_same fresh_new_job)
  next
    case (Some j)
    from inv Some obtain t where t: "map_of (threads s) k = Some t" and fit: "job_at t (t_pc t) j"
      unfolding jobs_fit_def by blast
    show ?thesis
    proof (cases a)
      case Home
      with after Some t fit show ?thesis by (simp add: job_of_def)
    next
      case (UploadCookies files)
      with after Some t fit show ?thesis by (simp add: job_of_def downloads_upload_cookies)
    next
      case (SetCookies body)
      with after Some t fit show ?thesis by (simp add: job_of_def downloads_set_cookies)
    next
      case (GetInfo a' ydl)
      with after Some t fit show ?thesis by (simp add: job_of_def)
    next
      case (GetStatus i)
      with after Some t fit show ?thesis by (simp add: job_of_def)
    next
      case (Cleanup ct rf ic)
      with after Some t fit cleanup_cycle_record [of ct rf ic "shared s" k] show ?thesis
        by (auto simp: job_of_def)
    next
      case (StartDownload a' i now ydl)
      with ok Some have ki: "k \<noteq> i" by (auto simp: job_of_def)
      show ?thesis
      proof (cases "truthy_str (a' ''url'')")
        case False
        with StartDownload after Some t fit show ?thesis
          by (simp add: job_of_def start_no_url)
      next
        case True
        then obtain u where "a' ''url'' = Some u" "u \<noteq> []"
          by (auto simp: truthy_str_def split: option.splits)
        with StartDownload after Some t fit ki show ?thesis
          by (simp add: job_of_def start_with_url map_of_update_other)
      qed
    next
      case (Advance i c v)
      show ?thesis
      proof (cases "map_of (threads s) i")
        case None
        with Advance after Some t fit show ?thesis by (simp add: job_of_def)
      next
        case ti: (Some t2)
        show ?thesis
        proof (cases "k = i")
          case False
          with Advance ti after Some t fit show ?thesis
            by (simp add: job_of_def step_other_record map_of_update_other)
        next
          case True
          with t ti have tt: "t2 = t" by simp
          from Some True have rec: "map_of (downloads (shared s)) i = Some j"
            by (simp add: job_of_def)
          from after Advance ti True tt
          have after': "map_of (downloads (snd (download_video_step i c v t (shared s)))) i = Some j'"
            by (simp add: job_of_def)
          from step_own_record [OF rec fit after']
          have "job_at (fst (download_video_step i c v t (shared s)))
                  (t_pc (fst (download_video_step i c v t (shared s)))) j'"
            by (simp add: job_at_fields [OF step_thread_fields(1,2)])
          with Advance ti True tt show ?thesis
            by (simp add: map_of_update_same)
        qed
      qed
    qed
  qed
qed

lemma jobs_fit_initial: "initial s \<Longrightarrow> jobs_fit s"
  by (simp add: initial_def jobs_fit_def job_of_def)

lemma jobs_fit_run:
  assumes "jobs_fit s" and "valid_run as s"
  shows "jobs_fit (run as s)"
  using assms
proof (induction as arbitrary: s)
  case Nil
  then show ?case by simp
next
  case (Cons a as)
  from Cons.prems have "jobs_fit (step a s)" "valid_run as (step a s)"
    by (simp_all add: jobs_fit_step)
  then show ?case
    using Cons.IH by simp
qed

lemma reachable_jobs_fit:
  assumes "initial s" and "valid_run as s"
  shows "jobs_fit (run as s)"
  using assms by (simp add: jobs_fit_run jobs_fit_initial)

section \<open>The outcome of the scan\<close>

lemma find_skips_other_entries:
  "find_downloaded_file c v k ds es = find_downloaded_file c v k ds (filter d_is_file es)"
  by (induction es arbitrary: k) (auto simp: not_in_claimed split: sum.splits)

lemma find_shift:
  "find_downloaded_file c v (k + n) ds es =
     find_downloaded_file (\<lambda>m. c (m + n)) (\<lambda>m. v (m + n)) k ds es"
proof (induction es arbitrary: k)
  case Nil
  show ?case by simp
next
  case (Cons e es)
  from Cons [of k] Cons [of "Suc k"] show ?case
    by (auto simp: not_in_claimed split: sum.splits)
qed

lemma find_Suc:
  "find_downloaded_file c v (Suc 0) ds es =
     find_downloaded_file (\<lambda>m. c (Suc m)) (\<lambda>m. v (Suc m)) 0 ds es"
  using find_shift [of c v 0 1 ds es] by simp

lemma passed_over_0: "passed_over c v fs 0"
  by (simp add: passed_over_def)

lemma passed_over_Cons:
  "passed_over c v (e # fs) (Suc n) =
     (\<not> v 0 \<and> (\<exists>created. d_ctime e = Inr created \<and> \<not> c 0 - created < timedelta_seconds 30)
      \<and> passed_over (\<lambda>m. c (Suc m)) (\<lambda>m. v (Suc m)) fs n)"
  by (simp add: passed_over_def All_less_Suc2)


lemma find_files_raises:
  assumes "\<forall>e \<in> set fs. d_is_file e"
  shows "(find_downloaded_file c v 0 ds fs = Inl msg) =
           (\<exists>n<length fs. passed_over c v fs n
              \<and> (if v n then msg = changed_size else d_ctime (fs ! n) = Inl msg))"
  using assms
proof (induction fs arbitrary: c v)
  case Nil
  show ?case by simp
next
  case (Cons e fs)
  then have isfile: "d_is_file e" and IH: "\<And>c v. (find_downloaded_file c v 0 ds fs = Inl msg)
      = (\<exists>n<length fs. passed_over c v fs n
              \<and> (if v n then msg = changed_size else d_ctime (fs ! n) = Inl msg))"
    by simp_all
  show ?case
    using isfile IH [of "\<lambda>m. c (Suc m)" "\<lambda>m. v (Suc m)"]
    by (auto simp: passed_over_Cons passed_over_0 not_in_claimed find_Suc Ex_less_Suc2
        split: sum.splits)
qed

lemma find_files_some:
  assumes "\<forall>e \<in> set fs. d_is_file e"
  shows "(find_downloaded_file c v 0 ds fs = Inr (Some name)) =
           (\<exists>n<length fs. passed_over c v fs n \<and> \<not> v n
              \<and> (\<exists>created. d_ctime (fs ! n) = Inr created
                    \<and> c n - created < timedelta_seconds 30)
              \<and> d_name (fs ! n) = name)"
  using assms
proof (induction fs arbitrary: c v)
  case Nil
  show ?case by simp
next
  case (Cons e fs)
  then have isfile: "d_is_file e" and IH: "\<And>c v. (find_downloaded_file c v 0 ds fs = Inr (Some name))
      = (\<exists>n<length fs. passed_over c v fs n \<and> \<not> v n
              \<and> (\<exists>created. d_ctime (fs ! n) = Inr created
                    \<and> c n - created < timedelta_seconds 30)
              \<and> d_name (fs ! n) = name)"
    by simp_all
  show ?case
    using isfile IH [of "\<lambda>m. c (Suc m)" "\<lambda>m. v (Suc m)"]
    by (auto simp: passed_over_Cons passed_over_0 not_in_claimed find_Suc Ex_less_Suc2
        split: sum.splits)
qed


lemma find_raises:
  "(find_downloaded_file c v 0 ds es = Inl msg) =
     (\<exists>n<length (filter d_is_file es). passed_over c v (filter d_is_file es) n
        \<and> (if v n then msg = changed_size else d_ctime (filter d_is_file es ! n) = Inl msg))"
  using find_files_raises [of "filter d_is_file es" c v ds msg]
    find_skips_other_entries [of c v 0 ds es]
  by simp

lemma find_some:
  "(find_downloaded_file c v 0 ds es = Inr (Some name)) =
     (\<exists>n<length (filter d_is_file es). passed_over c v (filter d_is_file es) n \<and> \<not> v n
        \<and> (\<exists>created. d_ctime (filter d_is_file es ! n) = Inr created
              \<and> c n - created < timedelta_seconds 30)
        \<and> d_name (filter d_is_file es ! n) = name)"
  using find_files_some [of "filter d_is_file es" c v ds name]
    find_skips_other_entries [of c v 0 ds es]
  by simp

section \<open>Runs\<close>

lemmas ex_defs =
  ex_initial_def ex_download_a_def ex_download_b_def ex_advance_def ex_args_a_def ex_args_def
  ex_ydl_def ex_ydl_idle_def ex_ydl_info_def ex_info_def ex_write_def ex_file_def
  ex_clock_def ex_unchanged_def

lemmas code_defs =
  download_video_start_def download_video_step_def raise_in_with_def leave_with_def
  set_item_def new_job_def truthy_str_def claimed_def timedelta_seconds_def arg_default_def
  key_error_def job_of_def pc_of_def Let_def

lemma ex_thread_simps:
  "t_pc (ex_thread ydl p) = p"
  "t_ydl (ex_thread ydl p) = ydl"
  "t_opts (ex_thread ydl p) = ex_opts"
  "t_url (ex_thread ydl p) = ''https://example.com/b''"
  "(ex_thread ydl p)\<lparr>t_pc := q\<rparr> = ex_thread ydl q"
  by (simp_all add: ex_thread_def)

lemma run_append: "run (as @ bs) s = run bs (run as s)"
  by (induction as arbitrary: s) simp_all

lemma valid_run_append: "valid_run (as @ bs) s = (valid_run as s \<and> valid_run bs (run as s))"
  by (induction as arbitrary: s) simp_all

lemma reachable_job:
  assumes "initial s0" and "valid_run as s0" and "job_of (run as s0) k = Some j"
  shows "\<exists>t. map_of (threads (run as s0)) k = Some t \<and> job_at t (t_pc t) j"
  using reachable_jobs_fit [OF assms(1,2)] assms(3) unfolding jobs_fit_def by blast

lemma job_at_status:
  assumes "job_at t p j"
  shows "status j = ''downloading'' \<or> status j = ''completed'' \<or> status j = ''error''"
  using assms
  by (cases p)
     (auto simp: fresh_job_def completed_job_def not_found_job_def
        split: body.splits if_splits)

lemma initial_ex: "initial ex_initial"
  by (simp add: initial_def ex_initial_def)

section \<open>Retry backoff\<close>

lemma backoff_small:
  "min ((4::nat) ^ 0) 60 = 1" "min ((4::nat) ^ 1) 60 = 4" "min ((4::nat) ^ 2) 60 = 16"
  by simp_all

lemma backoff_capped:
  assumes "3 \<le> n"
  shows "min ((4::nat) ^ n) 60 = 60"
proof -
  have "(4::nat) ^ 3 \<le> 4 ^ n"
    using assms by (intro power_increasing) simp_all
  then show ?thesis by simp
qed

text \<open>
  C8. The options handed to the extraction library hold, under each of the four keys
  \<^verbatim>\<open>http\<close>, \<^verbatim>\<open>fragment\<close>, \<^verbatim>\<open>file_access\<close> and \<^verbatim>\<open>extractor\<close> of
  \<^verbatim>\<open>retry_sleep_functions\<close>, the function that sends every retry count \<open>n\<close> to
  \<open>min (4 ^ n) 60\<close>: exponential with base 4, capped at 60. The quality, the format
  and the presence of a cookie file do not change it.
\<close>

theorem retry_backoff_base4_cap60:
  "map_of (retry_sleep_functions (get_yt_dlp_options quality format_type w)) ''http''
     = Some (\<lambda>n. min (4 ^ n) 60)
   \<and> map_of (retry_sleep_functions (get_yt_dlp_options quality format_type w)) ''fragment''
     = Some (\<lambda>n. min (4 ^ n) 60)
   \<and> map_of (retry_sleep_functions (get_yt_dlp_options quality format_type w)) ''file_access''
     = Some (\<lambda>n. min (4 ^ n) 60)
   \<and> map_of (retry_sleep_functions (get_yt_dlp_options quality format_type w)) ''extractor''
     = Some (\<lambda>n. min (4 ^ n) 60)
   \<and> map fst (retry_sleep_functions (get_yt_dlp_options quality format_type w))
     = [''http'', ''fragment'', ''file_access'', ''extractor'']"
  by (simp add: get_yt_dlp_options_def)

section \<open>Cookies without content\<close>

text \<open>
  C10. A request to \<^verbatim>\<open>/set-cookies\<close> whose JSON object has no key \<^verbatim>\<open>cookies\<close>, or has the
  empty string there, is answered with HTTP 400 and leaves the whole state, the cookie
  file included, as it was.
\<close>

theorem set_cookies_without_content:
  assumes "map_of kvs ''cookies'' = None \<or> map_of kvs ''cookies'' = Some (JStr [])"
  shows "set_cookies (Inr (JObj kvs)) w = ((JError ''No cookie content provided'', 400), w)"
  using assms by (auto simp: set_cookies_def json_get_def)

theorem set_cookies_without_content_witness:
  "(map_of [(''other'', JNum 1)] ''cookies'' = None
      \<or> map_of [(''other'', JNum 1)] ''cookies'' = Some (JStr []))
   \<and> set_cookies (Inr (JObj [(''other'', JNum 1)])) ex_world
       = ((JError ''No cookie content provided'', 400), ex_world)
   \<and> (map_of [(''cookies'', JStr [])] ''cookies'' = None
      \<or> map_of [(''cookies'', JStr [])] ''cookies'' = Some (JStr []))
   \<and> set_cookies (Inr (JObj [(''cookies'', JStr [])])) ex_world
       = ((JError ''No cookie content provided'', 400), ex_world)"
proof -
  have absent: "map_of [(''other'', JNum 1)] ''cookies'' = None
      \<or> map_of [(''other'', JNum 1)] ''cookies'' = Some (JStr [])"
    by simp
  have empty: "map_of [(''cookies'', JStr [])] ''cookies'' = None
      \<or> map_of [(''cookies'', JStr [])] ''cookies'' = Some (JStr [])"
    by simp
  from set_cookies_without_content [OF absent, of ex_world]
    set_cookies_without_content [OF empty, of ex_world] absent empty
  show ?thesis by blast
qed

section \<open>A download request without a url\<close>

text \<open>
  C7. A download request without the parameter \<^verbatim>\<open>url\<close> is answered with HTTP 400 before
  an identifier is made and before anything is written: the shared state, the registry
  included, and the table of the threads are as they were.
\<close>

theorem download_without_url:
  assumes "a ''url'' = None"
  shows "download_video_start a download_id now ydl w
           = (Inl (JError ''URL parameter is required'', 400), w)
         \<and> step (StartDownload a download_id now ydl) s = s"
  using assms by (simp add: download_video_start_def Let_def)

theorem download_without_url_witness:
  "ex_args_no_url ''url'' = None
   \<and> download_video_start ex_args_no_url ''job-b'' 8000000 ex_ydl_idle ex_world
       = (Inl (JError ''URL parameter is required'', 400), ex_world)
   \<and> step (StartDownload ex_args_no_url ''job-b'' 8000000 ex_ydl_idle) (run ex_download_a ex_initial)
       = run ex_download_a ex_initial"
proof -
  have none: "ex_args_no_url ''url'' = None"
    by (simp add: ex_args_no_url_def)
  from download_without_url
         [of ex_args_no_url "''job-b''" 8000000 ex_ydl_idle ex_world "run ex_download_a ex_initial"]
       none
  show ?thesis by simp
qed

section \<open>A file of an earlier record\<close>

text \<open>
  C1. The scan tests a file name against the records, not against their file names, so
  the test excludes nothing (\<open>not_in_claimed\<close>). In this run the request \<^verbatim>\<open>job-a\<close> of
  second 1 downloads \<^verbatim>\<open>a.mp4\<close> at second 3 and takes it; the request \<^verbatim>\<open>job-b\<close> of second 8
  downloads \<^verbatim>\<open>b.mp4\<close>; its scan at second 9 meets \<^verbatim>\<open>a.mp4\<close> first, which is less than 30
  seconds old, and the request ends with \<^verbatim>\<open>a.mp4\<close> as its file, which \<^verbatim>\<open>job-a\<close> holds.
\<close>

theorem claimed_file_selected_again:
  "job_of (run ex_download_a ex_initial) ''job-a''
     = Some \<lparr> status = ''completed'', timestamp = 1000000, url = ''https://example.com/a'',
              filename = Some ''a.mp4'', error = None \<rparr>
   \<and> pc_of (run (ex_download_a @ ex_download_b (ex_ydl ''b.mp4'' 8500000)) ex_initial) ''job-b''
     = Some (Done (JDownload \<lparr> dr_download_id = ''job-b'', dr_status = ''completed'',
                              dr_filename = ''a.mp4'', dr_download_url = ''/file/job-b'',
                              dr_title = ''clip'' \<rparr>, 200))
   \<and> job_of (run (ex_download_a @ ex_download_b (ex_ydl ''b.mp4'' 8500000)) ex_initial) ''job-b''
     = Some \<lparr> status = ''completed'', timestamp = 8000000, url = ''https://example.com/b'',
              filename = Some ''a.mp4'', error = None \<rparr>
   \<and> job_of (run (ex_download_a @ ex_download_b (ex_ydl ''b.mp4'' 8500000)) ex_initial) ''job-a''
     = Some \<lparr> status = ''completed'', timestamp = 1000000, url = ''https://example.com/a'',
              filename = Some ''a.mp4'', error = None \<rparr>"
  by (simp add: ex_defs code_defs)

section \<open>A request that ends with an exception\<close>

lemmas failing_defs =
  ex_defs ex_ydl_raising_def ex_ydl_download_raising_def ex_ydl_close_raising_def
  ex_ydl_leaving_part_def ex_vanished_file_def ex_long_download_def ex_never_fails_def
  ex_world_def ex_job_a_def

lemma answered_download_failed:
  assumes "initial s0" and "valid_run as s0"
    and "pc_of (run as s0) i = Some (Done (JError (''Download failed: '' @ msg), code))"
    and "job_of (run as s0) i = Some j"
  shows "status j = ''error'' \<and> error j = Some msg"
proof -
  from reachable_job [OF assms(1,2,4)]
  obtain t where t: "map_of (threads (run as s0)) i = Some t" and fit: "job_at t (t_pc t) j"
    by blast
  from assms(3) t have "t_pc t = Done (JError (''Download failed: '' @ msg), code)"
    by (simp add: pc_of_def)
  with fit show ?thesis
    by (auto split: option.splits)
qed

text \<open>
  C2, as the code has it. The exception that reaches the \<^verbatim>\<open>except\<close> clause of a download
  request is the one raised by making the library object, or the one with which the
  \<^verbatim>\<open>with\<close> block is left (\<open>leave_with\<close>: the exception raised in the block by the
  metadata query, by metadata that is \<^verbatim>\<open>None\<close> or has the title \<^verbatim>\<open>None\<close>, by the download,
  by the scan, or by a write to a record that is gone, unless leaving the block raises
  itself), or the one raised on leaving the block at the \<^verbatim>\<open>return\<close>. With its message
  \<open>msg\<close> the clause sets the status of the record to \<^verbatim>\<open>'error'\<close>, then its error text to
  \<open>msg\<close>, and answers HTTP 500 with \<^verbatim>\<open>'Download failed: '\<close> and \<open>msg\<close>, as long as the record is
  in the registry at each write; when the cleanup loop has removed the record, the
  write raises \<^verbatim>\<open>KeyError\<close> and the request ends with the error page of the framework.
  In every state of every valid run, a request answered with \<^verbatim>\<open>'Download failed: '\<close> and
  \<open>msg\<close> has a record, if it still has one, with the status \<^verbatim>\<open>'error'\<close> and the error text
  \<open>msg\<close>.
\<close>

theorem download_exception_recorded:
  "(t_pc t = AtExtract \<and> construct (t_ydl t) (t_opts t) = Some msg \<longrightarrow>
      download_video_step i c v t w = (t\<lparr>t_pc := AtExcept msg\<rparr>, w))
   \<and> (t_pc t = AtExtract \<and> construct (t_ydl t) (t_opts t) = None
        \<and> extract_info (t_ydl t) (t_opts t) (t_url t) = Inl msg \<longrightarrow>
      download_video_step i c v t w
        = (t\<lparr>t_pc := AtExcept (leave_with (t_ydl t) (t_opts t) msg)\<rparr>, w))
   \<and> (t_pc t = AtExtract \<and> construct (t_ydl t) (t_opts t) = None
        \<and> extract_info (t_ydl t) (t_opts t) (t_url t) = Inr None \<longrightarrow>
      download_video_step i c v t w
        = (t\<lparr>t_pc := AtExcept (leave_with (t_ydl t) (t_opts t) none_has_no_get)\<rparr>, w))
   \<and> (t_pc t = AtExtract \<and> construct (t_ydl t) (t_opts t) = None
        \<and> extract_info (t_ydl t) (t_opts t) (t_url t) = Inr (Some info)
        \<and> info_title info = PyNone \<longrightarrow>
      download_video_step i c v t w
        = (t\<lparr>t_pc := AtExcept (leave_with (t_ydl t) (t_opts t) none_not_iterable)\<rparr>, w))
   \<and> (t_pc t = AtDownload title
        \<and> download (t_ydl t) (t_opts t) (t_url t) (download_dir w) = (Some msg, d) \<longrightarrow>
      download_video_step i c v t w
        = (t\<lparr>t_pc := AtExcept (leave_with (t_ydl t) (t_opts t) msg)\<rparr>, w\<lparr>download_dir := d\<rparr>))
   \<and> (t_pc t = AtScan title \<and> download_dir w = Inl msg \<longrightarrow>
      download_video_step i c v t w
        = (t\<lparr>t_pc := AtExcept (leave_with (t_ydl t) (t_opts t) msg)\<rparr>, w))
   \<and> (t_pc t = AtScan title \<and> download_dir w = Inr es \<and> n < length (filter d_is_file es)
        \<and> passed_over c v (filter d_is_file es) n
        \<and> (if v n then msg = changed_size else d_ctime (filter d_is_file es ! n) = Inl msg) \<longrightarrow>
      download_video_step i c v t w
        = (t\<lparr>t_pc := AtExcept (leave_with (t_ydl t) (t_opts t) msg)\<rparr>, w))
   \<and> ((t_pc t = AtStatus title f \<or> t_pc t = AtDetail title f)
        \<and> map_of (downloads w) i = None \<longrightarrow>
      download_video_step i c v t w
        = (t\<lparr>t_pc := AtExcept (leave_with (t_ydl t) (t_opts t) (key_error i))\<rparr>, w))
   \<and> (t_pc t = AtDetail title f \<and> map_of (downloads w) i = Some j
        \<and> close (t_ydl t) (t_opts t) = Some msg \<longrightarrow>
      fst (download_video_step i c v t w) = t\<lparr>t_pc := AtExcept msg\<rparr>)
   \<and> (t_pc t = AtExcept msg \<and> map_of (downloads w) i = Some j \<longrightarrow>
      download_video_step i c v t w
        = (t\<lparr>t_pc := AtExcept2 msg\<rparr>,
           w\<lparr>downloads := AList.update i (j\<lparr>status := ''error''\<rparr>) (downloads w)\<rparr>))
   \<and> (t_pc t = AtExcept2 msg \<and> map_of (downloads w) i = Some j \<longrightarrow>
      download_video_step i c v t w
        = (t\<lparr>t_pc := Done (JError (''Download failed: '' @ msg), 500)\<rparr>,
           w\<lparr>downloads := AList.update i (j\<lparr>error := Some msg\<rparr>) (downloads w)\<rparr>))
   \<and> ((t_pc t = AtExcept msg \<or> t_pc t = AtExcept2 msg) \<and> map_of (downloads w) i = None \<longrightarrow>
      download_video_step i c v t w = (t\<lparr>t_pc := Done (Unhandled, 500)\<rparr>, w))
   \<and> (initial s0 \<and> valid_run as s0
        \<and> pc_of (run as s0) i = Some (Done (JError (''Download failed: '' @ msg), 500))
        \<and> job_of (run as s0) i = Some j \<longrightarrow>
      status j = ''error'' \<and> error j = Some msg)"
proof (intro conjI impI)
  assume "t_pc t = AtScan title \<and> download_dir w = Inr es \<and> n < length (filter d_is_file es)
        \<and> passed_over c v (filter d_is_file es) n
        \<and> (if v n then msg = changed_size else d_ctime (filter d_is_file es ! n) = Inl msg)"
  then have pc: "t_pc t = AtScan title" and dir: "download_dir w = Inr es"
    and "find_downloaded_file c v 0 (downloads w) es = Inl msg"
    unfolding find_raises by blast+
  then show "download_video_step i c v t w
        = (t\<lparr>t_pc := AtExcept (leave_with (t_ydl t) (t_opts t) msg)\<rparr>, w)"
    by (simp add: step_at raise_in_with_def)
next
  assume "initial s0 \<and> valid_run as s0
        \<and> pc_of (run as s0) i = Some (Done (JError (''Download failed: '' @ msg), 500))
        \<and> job_of (run as s0) i = Some j"
  then show "status j = ''error''" and "error j = Some msg"
    using answered_download_failed [of s0 as i msg 500 j] by simp_all
qed (auto simp: step_at raise_in_with_def)

theorem download_exception_recorded_witness:
  "initial ex_initial
   \<and> valid_run (ex_download_b (ex_ydl_raising ''HTTP Error 403'')) ex_initial
   \<and> pc_of (run (ex_download_b (ex_ydl_raising ''HTTP Error 403'')) ex_initial) ''job-b''
       = Some (Done (JError (''Download failed: '' @ ''HTTP Error 403''), 500))
   \<and> job_of (run (ex_download_b (ex_ydl_raising ''HTTP Error 403'')) ex_initial) ''job-b''
       = Some \<lparr> status = ''error'', timestamp = 8000000, url = ''https://example.com/b'',
                filename = None, error = Some ''HTTP Error 403'' \<rparr>
   \<and> job_of (run (ex_download_b (ex_ydl_download_raising ''timed out'')) ex_initial) ''job-b''
       = Some \<lparr> status = ''error'', timestamp = 8000000, url = ''https://example.com/b'',
                filename = None, error = Some ''timed out'' \<rparr>
   \<and> pc_of (run (ex_download_b (ex_ydl_download_raising ''timed out'')) ex_initial) ''job-b''
       = Some (Done (JError ''Download failed: timed out'', 500))
   \<and> job_of (run (ex_download_b ex_ydl_leaving_part) ex_initial) ''job-b''
       = Some \<lparr> status = ''error'', timestamp = 8000000, url = ''https://example.com/b'',
                filename = None, error = Some ''[Errno 2] No such file or directory'' \<rparr>
   \<and> pc_of (run (ex_download_b ex_ydl_leaving_part) ex_initial) ''job-b''
       = Some (Done (JError ''Download failed: [Errno 2] No such file or directory'', 500))
   \<and> job_of (run (ex_download_b (ex_ydl_close_raising ''b.mp4'' 8500000 ''cannot save cookies''))
               ex_initial) ''job-b''
       = Some \<lparr> status = ''error'', timestamp = 8000000, url = ''https://example.com/b'',
                filename = Some ''b.mp4'', error = Some ''cannot save cookies'' \<rparr>
   \<and> pc_of (run (ex_download_b (ex_ydl_close_raising ''b.mp4'' 8500000 ''cannot save cookies''))
               ex_initial) ''job-b''
       = Some (Done (JError ''Download failed: cannot save cookies'', 500))
   \<and> t_pc (ex_thread (ex_ydl_download_raising ''timed out'') (AtDownload ''clip''))
       = AtDownload ''clip''
   \<and> download_video_step ''job-b'' (ex_clock 9000000) ex_unchanged
        (ex_thread (ex_ydl_download_raising ''timed out'') (AtDownload ''clip'')) ex_world
       = (ex_thread (ex_ydl_download_raising ''timed out'') (AtExcept ''timed out''), ex_world)
   \<and> download_video_step ''job-a'' (ex_clock 9000000) ex_unchanged
        (ex_thread ex_ydl_idle (AtExcept ''timed out'')) ex_world
       = (ex_thread ex_ydl_idle (AtExcept2 ''timed out''),
          ex_world\<lparr>downloads := [(''job-a'', ex_job_a\<lparr>status := ''error''\<rparr>)]\<rparr>)
   \<and> download_video_step ''job-a'' (ex_clock 9000000) ex_unchanged
        (ex_thread ex_ydl_idle (AtExcept2 ''timed out'')) ex_world
       = (ex_thread ex_ydl_idle (Done (JError ''Download failed: timed out'', 500)),
          ex_world\<lparr>downloads := [(''job-a'', ex_job_a\<lparr>error := Some ''timed out''\<rparr>)]\<rparr>)
   \<and> download_video_step ''job-b'' (ex_clock 9000000) ex_unchanged
        (ex_thread ex_ydl_idle (AtExcept ''timed out'')) ex_world
       = (ex_thread ex_ydl_idle (Done (Unhandled, 500)), ex_world)"
proof -
  have valid: "valid_run (ex_download_b (ex_ydl_raising ''HTTP Error 403'')) ex_initial"
    by (simp add: failing_defs code_defs)
  have pc: "pc_of (run (ex_download_b (ex_ydl_raising ''HTTP Error 403'')) ex_initial) ''job-b''
       = Some (Done (JError (''Download failed: '' @ ''HTTP Error 403''), 500))"
    by (simp add: failing_defs code_defs)
  have job: "job_of (run (ex_download_b (ex_ydl_raising ''HTTP Error 403'')) ex_initial) ''job-b''
       = Some \<lparr> status = ''error'', timestamp = 8000000, url = ''https://example.com/b'',
                filename = None, error = Some ''HTTP Error 403'' \<rparr>"
    by (simp add: failing_defs code_defs)
  have runs:
    "job_of (run (ex_download_b (ex_ydl_download_raising ''timed out'')) ex_initial) ''job-b''
       = Some \<lparr> status = ''error'', timestamp = 8000000, url = ''https://example.com/b'',
                filename = None, error = Some ''timed out'' \<rparr>"
    "pc_of (run (ex_download_b (ex_ydl_download_raising ''timed out'')) ex_initial) ''job-b''
       = Some (Done (JError ''Download failed: timed out'', 500))"
    "job_of (run (ex_download_b ex_ydl_leaving_part) ex_initial) ''job-b''
       = Some \<lparr> status = ''error'', timestamp = 8000000, url = ''https://example.com/b'',
                filename = None, error = Some ''[Errno 2] No such file or directory'' \<rparr>"
    "pc_of (run (ex_download_b ex_ydl_leaving_part) ex_initial) ''job-b''
       = Some (Done (JError ''Download failed: [Errno 2] No such file or directory'', 500))"
    "job_of (run (ex_download_b (ex_ydl_close_raising ''b.mp4'' 8500000 ''cannot save cookies''))
               ex_initial) ''job-b''
       = Some \<lparr> status = ''error'', timestamp = 8000000, url = ''https://example.com/b'',
                filename = Some ''b.mp4'', error = Some ''cannot save cookies'' \<rparr>"
    "pc_of (run (ex_download_b (ex_ydl_close_raising ''b.mp4'' 8500000 ''cannot save cookies''))
               ex_initial) ''job-b''
       = Some (Done (JError ''Download failed: cannot save cookies'', 500))"
    by (simp_all add: failing_defs code_defs)
  note exc = download_exception_recorded
  have raised: "download_video_step ''job-b'' (ex_clock 9000000) ex_unchanged
        (ex_thread (ex_ydl_download_raising ''timed out'') (AtDownload ''clip'')) ex_world
       = (ex_thread (ex_ydl_download_raising ''timed out'') (AtExcept ''timed out''), ex_world)"
  proof -
    have "download (ex_ydl_download_raising ''timed out'') ex_opts ''https://example.com/b''
            (download_dir ex_world) = (Some ''timed out'', download_dir ex_world)"
      by (simp add: ex_ydl_download_raising_def ex_ydl_idle_def ex_ydl_info_def)
    moreover have "leave_with (ex_ydl_download_raising ''timed out'') ex_opts ''timed out''
            = ''timed out''"
      by (simp add: leave_with_def ex_ydl_download_raising_def ex_ydl_idle_def ex_ydl_info_def)
    ultimately show ?thesis
      using exc [where t = "ex_thread (ex_ydl_download_raising ''timed out'') (AtDownload ''clip'')"
        and w = ex_world and title = "''clip''" and msg = "''timed out''"
        and d = "download_dir ex_world" and i = "''job-b''" and c = "ex_clock 9000000"
        and v = ex_unchanged,
        THEN conjunct2, THEN conjunct2, THEN conjunct2, THEN conjunct2, THEN conjunct1]
      by (simp add: ex_thread_simps)
  qed
  have present: "map_of (downloads ex_world) ''job-a'' = Some ex_job_a"
    and absent: "map_of (downloads ex_world) ''job-b'' = None"
    by (simp_all add: ex_world_def)
  have written: "download_video_step ''job-a'' (ex_clock 9000000) ex_unchanged
        (ex_thread ex_ydl_idle (AtExcept ''timed out'')) ex_world
       = (ex_thread ex_ydl_idle (AtExcept2 ''timed out''),
          ex_world\<lparr>downloads := [(''job-a'', ex_job_a\<lparr>status := ''error''\<rparr>)]\<rparr>)"
    using present
      exc [where t = "ex_thread ex_ydl_idle (AtExcept ''timed out'')"
        and w = ex_world and msg = "''timed out''" and j = ex_job_a and i = "''job-a''"
        and c = "ex_clock 9000000" and v = ex_unchanged,
        THEN conjunct2, THEN conjunct2, THEN conjunct2, THEN conjunct2, THEN conjunct2,
        THEN conjunct2, THEN conjunct2, THEN conjunct2, THEN conjunct2, THEN conjunct1]
    by (simp add: ex_thread_simps) (simp add: ex_world_def)
  have written2: "download_video_step ''job-a'' (ex_clock 9000000) ex_unchanged
        (ex_thread ex_ydl_idle (AtExcept2 ''timed out'')) ex_world
       = (ex_thread ex_ydl_idle (Done (JError ''Download failed: timed out'', 500)),
          ex_world\<lparr>downloads := [(''job-a'', ex_job_a\<lparr>error := Some ''timed out''\<rparr>)]\<rparr>)"
    using present
      exc [where t = "ex_thread ex_ydl_idle (AtExcept2 ''timed out'')"
        and w = ex_world and msg = "''timed out''" and j = ex_job_a and i = "''job-a''"
        and c = "ex_clock 9000000" and v = ex_unchanged,
        THEN conjunct2, THEN conjunct2, THEN conjunct2, THEN conjunct2, THEN conjunct2,
        THEN conjunct2, THEN conjunct2, THEN conjunct2, THEN conjunct2, THEN conjunct2,
        THEN conjunct1]
    by (simp add: ex_thread_simps) (simp add: ex_world_def)
  have gone: "download_video_step ''job-b'' (ex_clock 9000000) ex_unchanged
        (ex_thread ex_ydl_idle (AtExcept ''timed out'')) ex_world
       = (ex_thread ex_ydl_idle (Done (Unhandled, 500)), ex_world)"
    using absent
      exc [where t = "ex_thread ex_ydl_idle (AtExcept ''timed out'')"
        and w = ex_world and msg = "''timed out''" and i = "''job-b''"
        and c = "ex_clock 9000000" and v = ex_unchanged,
        THEN conjunct2, THEN conjunct2, THEN conjunct2, THEN conjunct2, THEN conjunct2,
        THEN conjunct2, THEN conjunct2, THEN conjunct2, THEN conjunct2, THEN conjunct2,
        THEN conjunct2, THEN conjunct1]
    by (simp add: ex_thread_simps)
  from exc [where ?s0.0 = ex_initial and as = "ex_download_b (ex_ydl_raising ''HTTP Error 403'')"
      and i = "''job-b''" and msg = "''HTTP Error 403''"
      and j = "\<lparr> status = ''error'', timestamp = 8000000, url = ''https://example.com/b'',
                  filename = None, error = Some ''HTTP Error 403'' \<rparr>",
      THEN conjunct2, THEN conjunct2, THEN conjunct2, THEN conjunct2, THEN conjunct2,
      THEN conjunct2, THEN conjunct2, THEN conjunct2, THEN conjunct2, THEN conjunct2,
      THEN conjunct2, THEN conjunct2]
    initial_ex valid pc job
  have "status \<lparr> status = ''error'', timestamp = 8000000, url = ''https://example.com/b'',
                  filename = None, error = Some ''HTTP Error 403'' \<rparr> = ''error''"
    by blast
  with initial_ex valid pc job runs raised written written2 gone show ?thesis
    by (simp add: ex_thread_simps)
qed

text \<open>
  C2 as stated fails in two ways. The download of the request \<^verbatim>\<open>job-b\<close> of second 8 is
  still running at second 400, when a pass of the cleanup loop removes its record; the
  download then raises, the \<^verbatim>\<open>except\<close> clause is reached with the message, its first write
  raises \<^verbatim>\<open>KeyError\<close>, and the request ends with the error page of the framework and
  without a record. And when the download raises \<^verbatim>\<open>timed out\<close> and leaving the \<^verbatim>\<open>with\<close> block
  raises in turn, the record and the response have the message of the second exception,
  not of the first.
\<close>

theorem exception_message_lost_counterexample:
  "pc_of (run ex_long_download ex_initial) ''job-b'' = Some (AtExcept ''timed out'')
   \<and> job_of (run ex_long_download ex_initial) ''job-b'' = None
   \<and> pc_of (run (ex_long_download @ [ex_advance ''job-b'' 401000000]) ex_initial) ''job-b''
       = Some (Done (Unhandled, 500))
   \<and> job_of (run (ex_long_download @ [ex_advance ''job-b'' 401000000]) ex_initial) ''job-b'' = None
   \<and> job_of (run (ex_download_b (ex_ydl_both_raising ''timed out'' ''cannot save cookies''))
               ex_initial) ''job-b''
       = Some \<lparr> status = ''error'', timestamp = 8000000, url = ''https://example.com/b'',
                filename = None, error = Some ''cannot save cookies'' \<rparr>
   \<and> pc_of (run (ex_download_b (ex_ydl_both_raising ''timed out'' ''cannot save cookies''))
               ex_initial) ''job-b''
       = Some (Done (JError ''Download failed: cannot save cookies'', 500))"
  by (simp add: failing_defs ex_ydl_both_raising_def code_defs cleanup_cycle_def
      expired_downloads_def FILE_EXPIRY_TIME_def)

section \<open>The status of a record\<close>

lemmas closing_defs =
  ex_defs ex_download_close_def ex_ydl_close_raising_def

text \<open>
  C3, as the code has it. In every state of every valid run, every record has one of
  the three statuses. A record appears only through the start of a download request
  with its identifier, and starts with the status \<^verbatim>\<open>'downloading'\<close>, no file name and no
  error text. An action leaves the status of a record as it is, removes the record, or
  changes the status from \<^verbatim>\<open>'downloading'\<close> to \<^verbatim>\<open>'completed'\<close> or to \<^verbatim>\<open>'error'\<close>, or from
  \<^verbatim>\<open>'completed'\<close> to \<^verbatim>\<open>'error'\<close>; the last happens only in the \<^verbatim>\<open>except\<close> clause of the request
  of the record, after the file name was written and leaving the \<^verbatim>\<open>with\<close> block raised.
  So no status goes back to \<^verbatim>\<open>'downloading'\<close> and nothing leaves \<^verbatim>\<open>'error'\<close>.
\<close>

theorem job_status_lifecycle:
  assumes "initial s0" and "valid_run as s0" and "valid a (run as s0)"
  shows "(\<forall>k j. job_of (run as s0) k = Some j \<longrightarrow>
            (status j = ''downloading'' \<or> status j = ''completed'' \<or> status j = ''error'')
            \<and> (job_of (step a (run as s0)) k = None
                \<or> (\<exists>j'. job_of (step a (run as s0)) k = Some j'
                      \<and> (status j' = status j
                          \<or> (status j = ''downloading''
                              \<and> (status j' = ''completed'' \<or> status j' = ''error''))
                          \<or> (status j = ''completed'' \<and> status j' = ''error''
                              \<and> filename j \<noteq> None
                              \<and> (\<exists>c v t msg. a = Advance k c v
                                    \<and> map_of (threads (run as s0)) k = Some t
                                    \<and> t_pc t = AtExcept msg
                                    \<and> close (t_ydl t) (t_opts t) = Some msg))))))
         \<and> (\<forall>k j. job_of (run as s0) k = None \<longrightarrow> job_of (step a (run as s0)) k = Some j \<longrightarrow>
              (\<exists>a' now ydl u. a = StartDownload a' k now ydl \<and> a' ''url'' = Some u \<and> u \<noteq> []
                 \<and> j = \<lparr> status = ''downloading'', timestamp = now, url = u,
                         filename = None, error = None \<rparr>))"
proof (intro conjI allI impI)
  fix k j
  assume rec: "job_of (run as s0) k = Some j"
  from reachable_job [OF assms(1,2) rec] job_at_status
  show "status j = ''downloading'' \<or> status j = ''completed'' \<or> status j = ''error''"
    by blast
  from step_record [OF reachable_jobs_fit [OF assms(1,2)] assms(3) rec]
  show "job_of (step a (run as s0)) k = None
        \<or> (\<exists>j'. job_of (step a (run as s0)) k = Some j'
              \<and> (status j' = status j
                  \<or> (status j = ''downloading''
                      \<and> (status j' = ''completed'' \<or> status j' = ''error''))
                  \<or> (status j = ''completed'' \<and> status j' = ''error''
                      \<and> filename j \<noteq> None
                      \<and> (\<exists>c v t msg. a = Advance k c v
                            \<and> map_of (threads (run as s0)) k = Some t
                            \<and> t_pc t = AtExcept msg
                            \<and> close (t_ydl t) (t_opts t) = Some msg))))"
    by (auto simp: close_raises_def truthy_str_def)
next
  fix k j
  assume "job_of (run as s0) k = None" and "job_of (step a (run as s0)) k = Some j"
  from step_new_record [OF assms(3) this]
  show "\<exists>a' now ydl u. a = StartDownload a' k now ydl \<and> a' ''url'' = Some u \<and> u \<noteq> []
          \<and> j = \<lparr> status = ''downloading'', timestamp = now, url = u,
                  filename = None, error = None \<rparr>"
    by (auto simp: new_job_def)
qed

theorem job_status_lifecycle_witness:
  "initial ex_initial
   \<and> valid_run (take 6 ex_download_close) ex_initial
   \<and> valid (ex_advance ''job-b'' 9000000) (run (take 6 ex_download_close) ex_initial)
   \<and> job_of (run (take 6 ex_download_close) ex_initial) ''job-b''
       = Some \<lparr> status = ''completed'', timestamp = 8000000, url = ''https://example.com/b'',
                filename = Some ''b.mp4'', error = None \<rparr>
   \<and> pc_of (run (take 6 ex_download_close) ex_initial) ''job-b''
       = Some (AtExcept ''cannot save cookies'')
   \<and> job_of (step (ex_advance ''job-b'' 9000000) (run (take 6 ex_download_close) ex_initial))
         ''job-b''
       = Some \<lparr> status = ''error'', timestamp = 8000000, url = ''https://example.com/b'',
                filename = Some ''b.mp4'', error = None \<rparr>
   \<and> valid_run ex_download_a ex_initial
   \<and> valid (StartDownload ex_args ''job-b'' 8000000 ex_ydl_idle) (run ex_download_a ex_initial)
   \<and> job_of (run ex_download_a ex_initial) ''job-b'' = None
   \<and> job_of (step (StartDownload ex_args ''job-b'' 8000000 ex_ydl_idle)
              (run ex_download_a ex_initial)) ''job-b''
       = Some \<lparr> status = ''downloading'', timestamp = 8000000, url = ''https://example.com/b'',
                filename = None, error = None \<rparr>
   \<and> job_of (run ex_download_a ex_initial) ''job-a''
       = Some \<lparr> status = ''completed'', timestamp = 1000000, url = ''https://example.com/a'',
                filename = Some ''a.mp4'', error = None \<rparr>
   \<and> job_of (step (StartDownload ex_args ''job-b'' 8000000 ex_ydl_idle)
              (run ex_download_a ex_initial)) ''job-a''
       = Some \<lparr> status = ''completed'', timestamp = 1000000, url = ''https://example.com/a'',
                filename = Some ''a.mp4'', error = None \<rparr>"
proof -
  have v1: "valid_run (take 6 ex_download_close) ex_initial"
    and v2: "valid (ex_advance ''job-b'' 9000000) (run (take 6 ex_download_close) ex_initial)"
    and v3: "valid_run ex_download_a ex_initial"
    by (simp_all add: closing_defs code_defs)
  have v4: "valid (StartDownload ex_args ''job-b'' 8000000 ex_ydl_idle)
              (run ex_download_a ex_initial)"
    by (simp add: closing_defs code_defs)
  have before: "job_of (run (take 6 ex_download_close) ex_initial) ''job-b''
       = Some \<lparr> status = ''completed'', timestamp = 8000000, url = ''https://example.com/b'',
                filename = Some ''b.mp4'', error = None \<rparr>"
    and pc: "pc_of (run (take 6 ex_download_close) ex_initial) ''job-b''
       = Some (AtExcept ''cannot save cookies'')"
    by (simp_all add: closing_defs code_defs)
  have after: "job_of (step (ex_advance ''job-b'' 9000000)
                  (run (take 6 ex_download_close) ex_initial)) ''job-b''
       = Some \<lparr> status = ''error'', timestamp = 8000000, url = ''https://example.com/b'',
                filename = Some ''b.mp4'', error = None \<rparr>"
    by (simp add: closing_defs code_defs)
  have absent: "job_of (run ex_download_a ex_initial) ''job-b'' = None"
    and made: "job_of (step (StartDownload ex_args ''job-b'' 8000000 ex_ydl_idle)
              (run ex_download_a ex_initial)) ''job-b''
       = Some \<lparr> status = ''downloading'', timestamp = 8000000, url = ''https://example.com/b'',
                filename = None, error = None \<rparr>"
    and other: "job_of (run ex_download_a ex_initial) ''job-a''
       = Some \<lparr> status = ''completed'', timestamp = 1000000, url = ''https://example.com/a'',
                filename = Some ''a.mp4'', error = None \<rparr>"
    and kept: "job_of (step (StartDownload ex_args ''job-b'' 8000000 ex_ydl_idle)
              (run ex_download_a ex_initial)) ''job-a''
       = Some \<lparr> status = ''completed'', timestamp = 1000000, url = ''https://example.com/a'',
                filename = Some ''a.mp4'', error = None \<rparr>"
    by (simp_all add: closing_defs code_defs)
  from job_status_lifecycle [OF initial_ex v1 v2, THEN conjunct1, rule_format, OF before]
  have "status \<lparr> status = ''completed'', timestamp = 8000000, url = ''https://example.com/b'',
                  filename = Some ''b.mp4'', error = None \<rparr> = ''downloading''
        \<or> status \<lparr> status = ''completed'', timestamp = 8000000, url = ''https://example.com/b'',
                  filename = Some ''b.mp4'', error = None \<rparr> = ''completed''
        \<or> status \<lparr> status = ''completed'', timestamp = 8000000, url = ''https://example.com/b'',
                  filename = Some ''b.mp4'', error = None \<rparr> = ''error''"
    by blast
  moreover
  from job_status_lifecycle [OF initial_ex v3 v4, THEN conjunct2, rule_format, OF absent made]
  have "\<exists>a' now ydl u. StartDownload ex_args ''job-b'' 8000000 ex_ydl_idle
          = StartDownload a' ''job-b'' now ydl \<and> a' ''url'' = Some u \<and> u \<noteq> []"
    by blast
  ultimately show ?thesis
    using initial_ex v1 v2 v3 v4 before pc after absent made other kept by simp
qed

text \<open>
  C3 as stated fails: the request \<^verbatim>\<open>job-b\<close> finds its file and writes \<^verbatim>\<open>'completed'\<close>; then
  leaving the \<^verbatim>\<open>with\<close> block raises, and the \<^verbatim>\<open>except\<close> clause writes \<^verbatim>\<open>'error'\<close>. The status
  of the record changes twice, the second time out of \<^verbatim>\<open>'completed'\<close>.
\<close>

theorem completed_then_error_counterexample:
  "map_option status (job_of (run (take 1 ex_download_close) ex_initial) ''job-b'')
     = Some ''downloading''
   \<and> map_option status (job_of (run (take 5 ex_download_close) ex_initial) ''job-b'')
     = Some ''completed''
   \<and> map_option status (job_of (run (take 6 ex_download_close) ex_initial) ''job-b'')
     = Some ''completed''
   \<and> map_option status (job_of (run (take 7 ex_download_close) ex_initial) ''job-b'')
     = Some ''error''
   \<and> map_option status (job_of (run ex_download_close ex_initial) ''job-b'')
     = Some ''error''"
  by (simp add: closing_defs code_defs)

section \<open>The fields of a record\<close>

lemmas record_defs =
  ex_defs ex_download_close_def ex_ydl_raising_def ex_ydl_close_raising_def

lemma job_at_error:
  assumes "job_at t p j" and "error j \<noteq> None"
  shows "status j = ''error''"
  using assms
  by (cases p)
     (auto simp: fresh_job_def completed_job_def not_found_job_def
        split: body.splits if_splits option.splits)

lemma job_at_filename:
  assumes "job_at t p j" and "filename j \<noteq> None"
  shows "(\<exists>n. filename j = Some n \<and> n \<noteq> [])
         \<and> (status j = ''completed'' \<or> status j = ''error'')"
  using assms
  by (cases p)
     (auto simp: fresh_job_def completed_job_def not_found_job_def truthy_str_def
        split: body.splits if_splits option.splits)

lemma job_at_filename_error:
  assumes "job_at t p j" and "filename j \<noteq> None" and "status j = ''error''"
  shows "\<exists>msg. close (t_ydl t) (t_opts t) = Some msg \<and> (error j = None \<or> error j = Some msg)"
  using assms
  by (cases p)
     (auto simp: fresh_job_def completed_job_def not_found_job_def close_raises_def
        split: body.splits if_splits option.splits)

lemma job_at_done:
  assumes "job_at t (Done resp) j"
  shows "(status j = ''completed'' \<longrightarrow> filename j \<noteq> None)
         \<and> (status j = ''error'' \<longrightarrow> error j \<noteq> None)"
  using assms
  by (auto simp: completed_job_def not_found_job_def truthy_str_def
        split: body.splits option.splits)

text \<open>
  C4, as the code has it. In every state of every valid run, a record has an
  error text only with the status \<^verbatim>\<open>'error'\<close>; it has a file name only with the status
  \<^verbatim>\<open>'completed'\<close> or \<^verbatim>\<open>'error'\<close>, and the name is not empty; it has a file name with the
  status \<^verbatim>\<open>'error'\<close> only when leaving the \<^verbatim>\<open>with\<close> block raises in its request, and its
  error text is then not yet set or the message of that exception; and once its
  request is answered, a record with the status \<^verbatim>\<open>'completed'\<close> has a file name and
  a record with the status \<^verbatim>\<open>'error'\<close> has an error text.
\<close>

theorem job_records_consistent:
  assumes "initial s0" and "valid_run as s0" and "job_of (run as s0) k = Some j"
  shows "(error j \<noteq> None \<longrightarrow> status j = ''error'')
         \<and> (filename j \<noteq> None \<longrightarrow>
              (\<exists>n. filename j = Some n \<and> n \<noteq> [])
              \<and> (status j = ''completed'' \<or> status j = ''error''))
         \<and> (filename j \<noteq> None \<and> status j = ''error'' \<longrightarrow>
              (\<exists>t msg. map_of (threads (run as s0)) k = Some t
                 \<and> close (t_ydl t) (t_opts t) = Some msg
                 \<and> (error j = None \<or> error j = Some msg)))
         \<and> (\<forall>resp. pc_of (run as s0) k = Some (Done resp) \<longrightarrow>
              (status j = ''completed'' \<longrightarrow> filename j \<noteq> None)
              \<and> (status j = ''error'' \<longrightarrow> error j \<noteq> None))"
proof -
  from reachable_job [OF assms]
  obtain t where t: "map_of (threads (run as s0)) k = Some t" and fit: "job_at t (t_pc t) j"
    by blast
  have "error j \<noteq> None \<longrightarrow> status j = ''error''"
    using job_at_error [OF fit] by blast
  moreover have "filename j \<noteq> None \<longrightarrow>
              (\<exists>n. filename j = Some n \<and> n \<noteq> [])
              \<and> (status j = ''completed'' \<or> status j = ''error'')"
    using job_at_filename [OF fit] by blast
  moreover have "filename j \<noteq> None \<and> status j = ''error'' \<longrightarrow>
              (\<exists>t msg. map_of (threads (run as s0)) k = Some t
                 \<and> close (t_ydl t) (t_opts t) = Some msg
                 \<and> (error j = None \<or> error j = Some msg))"
    using job_at_filename_error [OF fit] t by blast
  moreover have "\<forall>resp. pc_of (run as s0) k = Some (Done resp) \<longrightarrow>
              (status j = ''completed'' \<longrightarrow> filename j \<noteq> None)
              \<and> (status j = ''error'' \<longrightarrow> error j \<noteq> None)"
  proof (intro allI impI)
    fix resp
    assume "pc_of (run as s0) k = Some (Done resp)"
    with t have "t_pc t = Done resp"
      by (simp add: pc_of_def)
    with fit have "job_at t (Done resp) j"
      by simp
    then show "(status j = ''completed'' \<longrightarrow> filename j \<noteq> None)
              \<and> (status j = ''error'' \<longrightarrow> error j \<noteq> None)"
      by (rule job_at_done)
  qed
  ultimately show ?thesis by blast
qed

theorem job_records_consistent_witness:
  "initial ex_initial
   \<and> valid_run ex_download_close ex_initial
   \<and> job_of (run ex_download_close ex_initial) ''job-b''
       = Some \<lparr> status = ''error'', timestamp = 8000000, url = ''https://example.com/b'',
                filename = Some ''b.mp4'', error = Some ''cannot save cookies'' \<rparr>
   \<and> pc_of (run ex_download_close ex_initial) ''job-b''
       = Some (Done (JError ''Download failed: cannot save cookies'', 500))
   \<and> map_option (\<lambda>t. close (t_ydl t) (t_opts t))
        (map_of (threads (run ex_download_close ex_initial)) ''job-b'')
       = Some (Some ''cannot save cookies'')
   \<and> valid_run ex_download_a ex_initial
   \<and> job_of (run ex_download_a ex_initial) ''job-a''
       = Some \<lparr> status = ''completed'', timestamp = 1000000, url = ''https://example.com/a'',
                filename = Some ''a.mp4'', error = None \<rparr>
   \<and> pc_of (run ex_download_a ex_initial) ''job-a''
       = Some (Done (JDownload \<lparr> dr_download_id = ''job-a'', dr_status = ''completed'',
                                dr_filename = ''a.mp4'', dr_download_url = ''/file/job-a'',
                                dr_title = ''clip'' \<rparr>, 200))"
proof -
  have v: "valid_run ex_download_close ex_initial"
    and va: "valid_run ex_download_a ex_initial"
    by (simp_all add: record_defs code_defs)
  have job: "job_of (run ex_download_close ex_initial) ''job-b''
       = Some \<lparr> status = ''error'', timestamp = 8000000, url = ''https://example.com/b'',
                filename = Some ''b.mp4'', error = Some ''cannot save cookies'' \<rparr>"
    and pc: "pc_of (run ex_download_close ex_initial) ''job-b''
       = Some (Done (JError ''Download failed: cannot save cookies'', 500))"
    and cl: "map_option (\<lambda>t. close (t_ydl t) (t_opts t))
        (map_of (threads (run ex_download_close ex_initial)) ''job-b'')
       = Some (Some ''cannot save cookies'')"
    by (simp_all add: record_defs code_defs)
  have job_a: "job_of (run ex_download_a ex_initial) ''job-a''
       = Some \<lparr> status = ''completed'', timestamp = 1000000, url = ''https://example.com/a'',
                filename = Some ''a.mp4'', error = None \<rparr>"
    and pc_a: "pc_of (run ex_download_a ex_initial) ''job-a''
       = Some (Done (JDownload \<lparr> dr_download_id = ''job-a'', dr_status = ''completed'',
                                dr_filename = ''a.mp4'', dr_download_url = ''/file/job-a'',
                                dr_title = ''clip'' \<rparr>, 200))"
    by (simp_all add: record_defs code_defs)
  from job_records_consistent [OF initial_ex v job, THEN conjunct1]
  have "status \<lparr> status = ''error'', timestamp = 8000000, url = ''https://example.com/b'',
                  filename = Some ''b.mp4'', error = Some ''cannot save cookies'' \<rparr> = ''error''"
    by simp
  moreover
  from job_records_consistent [OF initial_ex va job_a, THEN conjunct2, THEN conjunct2,
      THEN conjunct2, rule_format, OF pc_a]
  have "filename \<lparr> status = ''completed'', timestamp = 1000000, url = ''https://example.com/a'',
                   filename = Some ''a.mp4'', error = None \<rparr> \<noteq> None"
    by simp
  ultimately show ?thesis
    using initial_ex v va job pc cl job_a pc_a by simp
qed

text \<open>
  C4 as stated fails in four ways. Between the two writes of a request that found its
  file the record has the status \<^verbatim>\<open>'completed'\<close> and no file name; between the two writes
  of the \<^verbatim>\<open>except\<close> clause it has the status \<^verbatim>\<open>'error'\<close> and no error text; when leaving the
  \<^verbatim>\<open>with\<close> block raises after the file was found, it ends with the file name and the
  error text both set; and an exception with an empty message leaves the empty string
  as the error text.
\<close>

theorem record_invariants_counterexample:
  "job_of (run (take 5 (ex_download_b (ex_ydl ''b.mp4'' 8500000))) ex_initial) ''job-b''
     = Some \<lparr> status = ''completed'', timestamp = 8000000, url = ''https://example.com/b'',
              filename = None, error = None \<rparr>
   \<and> job_of (run (take 3 (ex_download_b (ex_ydl_raising ''HTTP Error 403''))) ex_initial) ''job-b''
     = Some \<lparr> status = ''error'', timestamp = 8000000, url = ''https://example.com/b'',
              filename = None, error = None \<rparr>
   \<and> job_of (run ex_download_close ex_initial) ''job-b''
     = Some \<lparr> status = ''error'', timestamp = 8000000, url = ''https://example.com/b'',
              filename = Some ''b.mp4'', error = Some ''cannot save cookies'' \<rparr>
   \<and> job_of (run (ex_download_b (ex_ydl_raising [])) ex_initial) ''job-b''
     = Some \<lparr> status = ''error'', timestamp = 8000000, url = ''https://example.com/b'',
              filename = None, error = Some [] \<rparr>"
  by (simp add: record_defs code_defs)

section \<open>A pass of the cleanup loop\<close>

text \<open>
  C5, as the code has it. A pass of the cleanup loop in which the directory can be
  listed, the creation time of every file of the listing can be read and no other
  thread changes the size of the registry during the iteration removes every record
  older than 300 seconds, whatever its status, whatever the directory holds and
  whichever removals of files fail. A pass in which one of the three raises leaves the
  registry as it is.
\<close>

theorem cleanup_removes_expired_records:
  "(download_dir w = Inr es
      \<and> (\<forall>e \<in> set es. d_is_file e \<longrightarrow> (\<exists>created. d_ctime e = Inr created))
      \<and> \<not> items_changed
      \<and> (k, j) \<in> set (downloads w)
      \<and> current_time - timestamp j > timedelta_seconds 300 \<longrightarrow>
    map_of (downloads (cleanup_cycle current_time remove_fails items_changed w)) k = None)
   \<and> ((\<exists>msg. download_dir w = Inl msg)
        \<or> (\<exists>es' e msg. download_dir w = Inr es' \<and> e \<in> set es' \<and> d_is_file e
              \<and> d_ctime e = Inl msg)
        \<or> items_changed \<longrightarrow>
      downloads (cleanup_cycle current_time remove_fails items_changed w) = downloads w)"
proof (intro conjI impI)
  assume h: "download_dir w = Inr es
      \<and> (\<forall>e \<in> set es. d_is_file e \<longrightarrow> (\<exists>created. d_ctime e = Inr created))
      \<and> \<not> items_changed
      \<and> (k, j) \<in> set (downloads w)
      \<and> current_time - timestamp j > timedelta_seconds 300"
  then have "\<not> (\<exists>msg. files_to_remove current_time es = Inl msg)"
    unfolding files_to_remove_raises by auto
  then obtain ps where ps: "files_to_remove current_time es = Inr ps"
    by (cases "files_to_remove current_time es") auto
  from h have "k \<in> set (expired_downloads current_time (downloads w))"
    by (auto simp: expired_downloads_member FILE_EXPIRY_TIME_def)
  with h ps show "map_of (downloads (cleanup_cycle current_time remove_fails items_changed w)) k
      = None"
    by (simp add: map_of_cleanup_cycle)
next
  assume h: "(\<exists>msg. download_dir w = Inl msg)
        \<or> (\<exists>es' e msg. download_dir w = Inr es' \<and> e \<in> set es' \<and> d_is_file e
              \<and> d_ctime e = Inl msg)
        \<or> items_changed"
  show "downloads (cleanup_cycle current_time remove_fails items_changed w) = downloads w"
  proof (cases "download_dir w")
    case (Inl msg)
    then show ?thesis by (simp add: cleanup_cycle_def)
  next
    case (Inr es')
    show ?thesis
    proof (cases "files_to_remove current_time es'")
      case (Inl msg)
      with Inr show ?thesis by (simp add: cleanup_cycle_def)
    next
      case ps: (Inr ps)
      then have "\<not> (\<exists>msg. files_to_remove current_time es' = Inl msg)"
        by simp
      then have "\<not> (\<exists>e \<in> set es'. d_is_file e \<and> (\<exists>msg. d_ctime e = Inl msg))"
        unfolding files_to_remove_raises .
      with h Inr have items_changed
        by auto
      with Inr ps show ?thesis
        by (simp add: cleanup_cycle_def Let_def)
    qed
  qed
qed

theorem cleanup_removes_expired_records_witness:
  "download_dir ex_world = Inr [ex_file ''a.mp4'' 3000000]
   \<and> d_ctime (ex_file ''a.mp4'' 3000000) = Inr 3000000
   \<and> (''job-a'', ex_job_a) \<in> set (downloads ex_world)
   \<and> 400000000 - timestamp ex_job_a > timedelta_seconds 300
   \<and> map_of (downloads (cleanup_cycle 400000000 ex_never_fails False ex_world)) ''job-a'' = None
   \<and> download_dir ex_world_part = Inr [ex_file ''a.mp4'' 3000000, ex_vanished_file ''b.mp4.part'']
   \<and> d_is_file (ex_vanished_file ''b.mp4.part'')
   \<and> d_ctime (ex_vanished_file ''b.mp4.part'') = Inl ''[Errno 2] No such file or directory''
   \<and> downloads (cleanup_cycle 400000000 ex_never_fails False ex_world_part)
       = downloads ex_world_part"
proof -
  have dir: "download_dir ex_world = Inr [ex_file ''a.mp4'' 3000000]"
    and files: "\<forall>e \<in> set [ex_file ''a.mp4'' 3000000].
                  d_is_file e \<longrightarrow> (\<exists>created. d_ctime e = Inr created)"
    and mem: "(''job-a'', ex_job_a) \<in> set (downloads ex_world)"
    and old: "400000000 - timestamp ex_job_a > timedelta_seconds 300"
    by (simp_all add: ex_world_def ex_file_def ex_job_a_def timedelta_seconds_def)
  have part: "download_dir ex_world_part
        = Inr [ex_file ''a.mp4'' 3000000, ex_vanished_file ''b.mp4.part'']"
    and isfile: "d_is_file (ex_vanished_file ''b.mp4.part'')"
    and gone: "d_ctime (ex_vanished_file ''b.mp4.part'') = Inl ''[Errno 2] No such file or directory''"
    by (simp_all add: ex_world_part_def ex_vanished_file_def)
  from cleanup_removes_expired_records
         [where w = ex_world and es = "[ex_file ''a.mp4'' 3000000]" and items_changed = False
            and k = "''job-a''" and j = ex_job_a and current_time = 400000000
            and remove_fails = ex_never_fails, THEN conjunct1]
       dir files mem old
  have removed: "map_of (downloads (cleanup_cycle 400000000 ex_never_fails False ex_world)) ''job-a''
      = None"
    by blast
  from cleanup_removes_expired_records
         [where w = ex_world_part and items_changed = False and current_time = 400000000
            and remove_fails = ex_never_fails, THEN conjunct2]
       part isfile gone
  have kept: "downloads (cleanup_cycle 400000000 ex_never_fails False ex_world_part)
      = downloads ex_world_part"
    by fastforce
  have ctime: "d_ctime (ex_file ''a.mp4'' 3000000) = Inr 3000000"
    by (simp add: ex_file_def)
  from dir ctime mem old removed part isfile gone kept show ?thesis
    by blast
qed

text \<open>
  C5 as stated fails: in the first pass the directory holds a part file of a running
  download that is gone when its creation time is read; \<^verbatim>\<open>os.path.getctime\<close> raises, the
  outer handler ends the pass, and the record \<^verbatim>\<open>job-a\<close>, which is 399 seconds old, stays.
  It stays as well in a pass in which the directory cannot be listed and in a pass
  during whose iteration over the registry another thread adds a record.
\<close>

theorem cleanup_keeps_expired_counterexample:
  "400000000 - timestamp ex_job_a > timedelta_seconds FILE_EXPIRY_TIME
   \<and> map_of (downloads ex_world_part) ''job-a'' = Some ex_job_a
   \<and> map_of (downloads (cleanup_cycle 400000000 ex_never_fails False ex_world_part)) ''job-a''
       = Some ex_job_a
   \<and> map_of (downloads (cleanup_cycle 400000000 ex_never_fails False
          (ex_world\<lparr>download_dir := Inl ''[Errno 13] Permission denied''\<rparr>))) ''job-a''
       = Some ex_job_a
   \<and> map_of (downloads (cleanup_cycle 400000000 ex_never_fails True ex_world)) ''job-a''
       = Some ex_job_a"
  by (simp add: cleanup_cycle_def ex_world_part_def ex_world_def ex_job_a_def ex_file_def
      ex_vanished_file_def ex_never_fails_def timedelta_seconds_def FILE_EXPIRY_TIME_def
      os_remove_def path_join_def DOWNLOAD_DIR_def)

section \<open>A download that leaves no file\<close>






section \<open>Metadata of a video\<close>

text \<open>
  C9, as the code has it. When the library object can be made and the metadata query
  returns a dictionary: if its formats are a list or are missing and leaving the
  \<^verbatim>\<open>with\<close> block does not raise, the response of \<^verbatim>\<open>/info\<close> is HTTP 200 with at most 10 format
  descriptors, made of the identifier, the extension, the quality note and the size of
  the first 10 formats, and with the description that is the first 500 characters of
  the source description followed by three dots when there is a description that is
  not empty, and the empty string otherwise; if its formats are \<^verbatim>\<open>None\<close>, or if leaving
  the block raises, the response is HTTP 500 with \<^verbatim>\<open>'Failed to get video info: '\<close> and the
  message of the exception.
\<close>

theorem info_formats_and_description:
  assumes "a ''url'' = Some u" and "u \<noteq> []"
    and "construct ydl ((get_yt_dlp_options ''best'' ''mp4'' w)\<lparr>quiet := Some True\<rparr>) = None"
    and "extract_info ydl ((get_yt_dlp_options ''best'' ''mp4'' w)\<lparr>quiet := Some True\<rparr>) u
           = Inr (Some info)"
  shows "(info_formats info \<noteq> PyNone
            \<and> close ydl ((get_yt_dlp_options ''best'' ''mp4'' w)\<lparr>quiet := Some True\<rparr>) = None \<longrightarrow>
          get_video_info a ydl w =
            (JVideoInfo
               \<lparr> vi_title = (case info_title info of Val t \<Rightarrow> Some t | _ \<Rightarrow> None),
                 vi_duration = info_duration info,
                 vi_uploader = info_uploader info,
                 vi_upload_date = info_upload_date info,
                 vi_view_count = info_view_count info,
                 vi_like_count = info_like_count info,
                 vi_description =
                   (case info_description info of
                      None \<Rightarrow> []
                    | Some d \<Rightarrow> if d = [] then [] else take 500 d @ ''...''),
                 vi_thumbnail = info_thumbnail info,
                 vi_formats =
                   map (\<lambda>f. \<lparr> fd_format_id = f_format_id f, fd_ext = f_ext f,
                               fd_quality = f_format_note f, fd_filesize = f_filesize f \<rparr>)
                     (take 10 (case info_formats info of Val fs \<Rightarrow> fs | _ \<Rightarrow> [])) \<rparr>, 200)
          \<and> length (map (\<lambda>f. \<lparr> fd_format_id = f_format_id f, fd_ext = f_ext f,
                                 fd_quality = f_format_note f, fd_filesize = f_filesize f \<rparr>)
                       (take 10 (case info_formats info of Val fs \<Rightarrow> fs | _ \<Rightarrow> []))) \<le> 10)
         \<and> (info_formats info = PyNone \<longrightarrow>
              get_video_info a ydl w =
                (JError (''Failed to get video info: ''
                          @ leave_with ydl ((get_yt_dlp_options ''best'' ''mp4'' w)\<lparr>quiet := Some True\<rparr>)
                              none_not_subscriptable), 500))
         \<and> (info_formats info \<noteq> PyNone
              \<and> close ydl ((get_yt_dlp_options ''best'' ''mp4'' w)\<lparr>quiet := Some True\<rparr>) = Some msg \<longrightarrow>
              get_video_info a ydl w = (JError (''Failed to get video info: '' @ msg), 500))"
  using assms
  by (cases "info_formats info")
     (simp_all add: get_video_info_def video_info_of_def description_of_def
        format_descriptor_of_def truthy_str_def Let_def split: option.splits)

theorem info_formats_and_description_witness:
  "ex_args ''url'' = Some ''https://example.com/b'' \<and> ''https://example.com/b'' \<noteq> []
   \<and> construct (ex_ydl_info ex_long_info)
        ((get_yt_dlp_options ''best'' ''mp4'' ex_world)\<lparr>quiet := Some True\<rparr>) = None
   \<and> extract_info (ex_ydl_info ex_long_info)
        ((get_yt_dlp_options ''best'' ''mp4'' ex_world)\<lparr>quiet := Some True\<rparr>)
        ''https://example.com/b'' = Inr (Some ex_long_info)
   \<and> info_formats ex_long_info = Val ex_many_formats \<and> length ex_many_formats = 12
   \<and> info_description ex_long_info = Some ex_long_description \<and> length ex_long_description = 600
   \<and> close (ex_ydl_info ex_long_info)
        ((get_yt_dlp_options ''best'' ''mp4'' ex_world)\<lparr>quiet := Some True\<rparr>) = None
   \<and> get_video_info ex_args (ex_ydl_info ex_long_info) ex_world =
       (JVideoInfo
          \<lparr> vi_title = Some ''clip'', vi_duration = Some 60, vi_uploader = None,
            vi_upload_date = None, vi_view_count = None, vi_like_count = None,
            vi_description = replicate 500 (CHR ''x'') @ ''...'',
            vi_thumbnail = None,
            vi_formats =
              replicate 10 \<lparr> fd_format_id = Some ''18'', fd_ext = Some ''mp4'',
                               fd_quality = Some ''360p'', fd_filesize = Some 1000 \<rparr> \<rparr>, 200)
   \<and> extract_info (ex_ydl_info ex_info_no_formats)
        ((get_yt_dlp_options ''best'' ''mp4'' ex_world)\<lparr>quiet := Some True\<rparr>)
        ''https://example.com/b'' = Inr (Some ex_info_no_formats)
   \<and> info_formats ex_info_no_formats = PyNone
   \<and> get_video_info ex_args (ex_ydl_info ex_info_no_formats) ex_world =
       (JError (''Failed to get video info: '' @ none_not_subscriptable), 500)
   \<and> close (ex_ydl_idle_close_raising ''cannot save cookies'')
        ((get_yt_dlp_options ''best'' ''mp4'' ex_world)\<lparr>quiet := Some True\<rparr>)
       = Some ''cannot save cookies''
   \<and> get_video_info ex_args (ex_ydl_idle_close_raising ''cannot save cookies'') ex_world =
       (JError ''Failed to get video info: cannot save cookies'', 500)"
proof -
  let ?opts = "(get_yt_dlp_options ''best'' ''mp4'' ex_world)\<lparr>quiet := Some True\<rparr>"
  have u: "ex_args ''url'' = Some ''https://example.com/b''"
    and ne: "''https://example.com/b'' \<noteq> []"
    by (simp_all add: ex_args_def)
  have mk: "construct (ex_ydl_info ex_long_info) ?opts = None"
    and ex: "extract_info (ex_ydl_info ex_long_info) ?opts ''https://example.com/b''
              = Inr (Some ex_long_info)"
    and cl: "close (ex_ydl_info ex_long_info) ?opts = None"
    and mk': "construct (ex_ydl_info ex_info_no_formats) ?opts = None"
    and ex': "extract_info (ex_ydl_info ex_info_no_formats) ?opts ''https://example.com/b''
              = Inr (Some ex_info_no_formats)"
    and cl': "close (ex_ydl_info ex_info_no_formats) ?opts = None"
    by (simp_all add: ex_ydl_info_def)
  have fs: "info_formats ex_long_info = Val ex_many_formats" "length ex_many_formats = 12"
    and ds: "info_description ex_long_info = Some ex_long_description"
      "length ex_long_description = 600"
    and nf: "info_formats ex_info_no_formats = PyNone"
    by (simp_all add: ex_long_info_def ex_many_formats_def ex_long_description_def
        ex_info_no_formats_def)
  from info_formats_and_description
         [of ex_args "''https://example.com/b''" "ex_ydl_info ex_long_info" ex_world ex_long_info,
          OF u ne mk ex, THEN conjunct1] fs cl
  have long: "get_video_info ex_args (ex_ydl_info ex_long_info) ex_world =
       (JVideoInfo
          \<lparr> vi_title = Some ''clip'', vi_duration = Some 60, vi_uploader = None,
            vi_upload_date = None, vi_view_count = None, vi_like_count = None,
            vi_description = replicate 500 (CHR ''x'') @ ''...'',
            vi_thumbnail = None,
            vi_formats =
              replicate 10 \<lparr> fd_format_id = Some ''18'', fd_ext = Some ''mp4'',
                               fd_quality = Some ''360p'', fd_filesize = Some 1000 \<rparr> \<rparr>, 200)"
    by (simp add: ex_long_info_def ex_info_def ex_many_formats_def ex_long_description_def)
  from info_formats_and_description
         [of ex_args "''https://example.com/b''" "ex_ydl_info ex_info_no_formats" ex_world
            ex_info_no_formats, OF u ne mk' ex', THEN conjunct2, THEN conjunct1] nf cl'
  have none: "get_video_info ex_args (ex_ydl_info ex_info_no_formats) ex_world =
       (JError (''Failed to get video info: '' @ none_not_subscriptable), 500)"
    by (simp add: leave_with_def)
  have mk'': "construct (ex_ydl_idle_close_raising ''cannot save cookies'') ?opts = None"
    and ex'': "extract_info (ex_ydl_idle_close_raising ''cannot save cookies'') ?opts
                 ''https://example.com/b'' = Inr (Some ex_info)"
    and cl'': "close (ex_ydl_idle_close_raising ''cannot save cookies'') ?opts
                 = Some ''cannot save cookies''"
    and fs'': "info_formats ex_info \<noteq> PyNone"
    by (simp_all add: ex_ydl_idle_close_raising_def ex_ydl_idle_def ex_ydl_info_def ex_info_def)
  from info_formats_and_description
         [of ex_args "''https://example.com/b''" "ex_ydl_idle_close_raising ''cannot save cookies''"
            ex_world ex_info "''cannot save cookies''",
          OF u ne mk'' ex'', THEN conjunct2, THEN conjunct2] fs'' cl''
  have closing: "get_video_info ex_args (ex_ydl_idle_close_raising ''cannot save cookies'') ex_world =
       (JError ''Failed to get video info: cannot save cookies'', 500)"
    by simp
  from u ne mk ex fs ds cl long ex' nf none cl'' closing show ?thesis
    by blast
qed

text \<open>
  C9 as stated fails in two ways: for metadata whose formats are \<^verbatim>\<open>None\<close> the slice raises
  \<^verbatim>\<open>TypeError\<close>, and when leaving the \<^verbatim>\<open>with\<close> block raises, its exception replaces
  the response; either way the response is HTTP 500 with the message of the exception,
  without format descriptors and without a description.
\<close>

theorem info_without_fields_counterexample:
  "info_formats ex_info_no_formats = PyNone
   \<and> info_description ex_info_no_formats = Some ''about b''
   \<and> get_video_info ex_args (ex_ydl_info ex_info_no_formats) ex_world =
       (JError (''Failed to get video info: '' @ none_not_subscriptable), 500)
   \<and> extract_info (ex_ydl_idle_close_raising ''cannot save cookies'')
        ((get_yt_dlp_options ''best'' ''mp4'' ex_world)\<lparr>quiet := Some True\<rparr>)
        ''https://example.com/b'' = Inr (Some ex_info)
   \<and> info_description ex_info = Some ''about b''
   \<and> get_video_info ex_args (ex_ydl_idle_close_raising ''cannot save cookies'') ex_world =
       (JError ''Failed to get video info: cannot save cookies'', 500)"
  by (simp add: get_video_info_def video_info_of_def ex_info_no_formats_def ex_info_def
      ex_ydl_info_def ex_ydl_idle_def ex_ydl_idle_close_raising_def ex_args_def leave_with_def
      Let_def)

end
